theory Spec2Isabelle
  imports Complex_Main "HOL-Library.Sublist"
begin

section \<open>Python strings and numbers\<close>

text \<open>
  A Python \<^verbatim>\<open>str\<close> is a sequence of Unicode code points, and \<^verbatim>\<open>len\<close> counts code
  points. The scripts are Arabic, so a string is modelled as a list of code points
  (natural numbers), not as a list of bytes. The string literals of \<^verbatim>\<open>src/app.py\<close> appear
  below as the lists of their code points in decimal: 32 is the space, 46 the period, 10
  the newline, 1575 (U+0627) the letter alif, 1604 (U+0644) the letter lam.
\<close>

type_synonym codepoint = nat
type_synonym pystr = "codepoint list"

text \<open>
  \<^verbatim>\<open>str.isspace\<close> for one character: the characters \<^verbatim>\<open>str.split()\<close> and
  \<^verbatim>\<open>str.strip()\<close> treat as whitespace (U+0009..U+000D, U+001C..U+0020, U+0085, U+00A0,
  U+1680, U+2000..U+200A, U+2028, U+2029, U+202F, U+205F, U+3000).
\<close>

definition isspace :: "codepoint \<Rightarrow> bool" where
  "isspace c =
     ((9 \<le> c \<and> c \<le> 13) \<or> (28 \<le> c \<and> c \<le> 32) \<or> c = 133 \<or> c = 160 \<or> c = 5760 \<or>
      (8192 \<le> c \<and> c \<le> 8202) \<or> c = 8232 \<or> c = 8233 \<or> c = 8239 \<or> c = 8287 \<or> c = 12288)"

text \<open>
  \<^verbatim>\<open>s.split()\<close>: the maximal runs of non-whitespace characters, in order. The first
  argument of \<open>split_from\<close> is the run read so far.
\<close>

fun split_from :: "pystr \<Rightarrow> pystr \<Rightarrow> pystr list" where
  "split_from cur [] = (if cur = [] then [] else [cur])"
| "split_from cur (c # cs) =
     (if isspace c then (if cur = [] then split_from [] cs else cur # split_from [] cs)
      else split_from (cur @ [c]) cs)"

definition str_split :: "pystr \<Rightarrow> pystr list" where
  "str_split s = split_from [] s"

text \<open>\<^verbatim>\<open>s.split(sep)\<close> for a separator of one character: \<open>n + 1\<close> fragments for \<open>n\<close> separators.\<close>

fun str_split_on :: "codepoint \<Rightarrow> pystr \<Rightarrow> pystr list" where
  "str_split_on sep [] = [[]]"
| "str_split_on sep (c # cs) =
     (if c = sep then [] # str_split_on sep cs
      else (case str_split_on sep cs of
              [] \<Rightarrow> [[c]]
            | w # ws \<Rightarrow> (c # w) # ws))"

text \<open>\<^verbatim>\<open>s.strip()\<close>, \<^verbatim>\<open>s.strip(chars)\<close> and \<^verbatim>\<open>s.rstrip(chars)\<close>.\<close>

definition str_strip :: "pystr \<Rightarrow> pystr" where
  "str_strip s = rev (dropWhile isspace (rev (dropWhile isspace s)))"

definition str_strip_chars :: "pystr \<Rightarrow> pystr \<Rightarrow> pystr" where
  "str_strip_chars chars s =
     rev (dropWhile (\<lambda>c. c \<in> set chars) (rev (dropWhile (\<lambda>c. c \<in> set chars) s)))"

definition str_rstrip_chars :: "pystr \<Rightarrow> pystr \<Rightarrow> pystr" where
  "str_rstrip_chars chars s = rev (dropWhile (\<lambda>c. c \<in> set chars) (rev s))"

text \<open>\<^verbatim>\<open>sub in s\<close>: \<open>sub\<close> occurs in \<open>s\<close> as a contiguous substring.\<close>

fun str_contains :: "pystr \<Rightarrow> pystr \<Rightarrow> bool" where
  "str_contains sub [] = (sub = [])"
| "str_contains sub (c # cs) = (take (length sub) (c # cs) = sub \<or> str_contains sub cs)"

text \<open>
  \<^verbatim>\<open>s.count(sub)\<close>: the number of non-overlapping occurrences of \<open>sub\<close>, found from left
  to right (for the empty \<open>sub\<close>, Python answers \<open>len(s) + 1\<close>).
\<close>

function str_count :: "pystr \<Rightarrow> pystr \<Rightarrow> nat" where
  "str_count sub s =
     (if sub = [] then length s + 1
      else if s = [] then 0
      else if take (length sub) s = sub then 1 + str_count sub (drop (length sub) s)
      else str_count sub (tl s))"
  by pat_completeness auto
termination
  by (relation "measure (\<lambda>(sub, s). length s)") auto

text \<open>\<^verbatim>\<open>sep.join(parts)\<close> and \<^verbatim>\<open>s.replace(a, b)\<close> for single characters \<open>a\<close>, \<open>b\<close>.\<close>

fun str_join :: "pystr \<Rightarrow> pystr list \<Rightarrow> pystr" where
  "str_join sep [] = []"
| "str_join sep [p] = p"
| "str_join sep (p # q # ps) = p @ sep @ str_join sep (q # ps)"

definition str_replace_char :: "codepoint \<Rightarrow> codepoint \<Rightarrow> pystr \<Rightarrow> pystr" where
  "str_replace_char a b s = map (\<lambda>c. if c = a then b else c) s"

text \<open>
  \<^verbatim>\<open>re.findall(r'\d+', s)\<close> returns the maximal runs of decimal digits; only their number
  is used. \<^verbatim>\<open>re.findall(r'\d{4}', s)\<close> is non-empty iff four consecutive characters are
  decimal digits. For a \<^verbatim>\<open>str\<close> pattern \<^verbatim>\<open>\d\<close> matches every character of the Unicode
  category Nd, a table of the interpreter's Unicode database, which is not part of the
  repository: the table is the parameter \<open>dig\<close> of both functions. The second argument
  of \<open>digit_runs_from\<close> tells whether the previous character was a digit.
\<close>

fun digit_runs_from :: "(codepoint \<Rightarrow> bool) \<Rightarrow> bool \<Rightarrow> pystr \<Rightarrow> nat" where
  "digit_runs_from dig inside [] = 0"
| "digit_runs_from dig inside (c # cs) =
     (if dig c then (if inside then 0 else 1) + digit_runs_from dig True cs
      else digit_runs_from dig False cs)"

definition findall_digits_count :: "(codepoint \<Rightarrow> bool) \<Rightarrow> pystr \<Rightarrow> nat" where
  "findall_digits_count dig s = digit_runs_from dig False s"

fun has_four_digits :: "(codepoint \<Rightarrow> bool) \<Rightarrow> pystr \<Rightarrow> bool" where
  "has_four_digits dig (a # b # c # d # cs) =
     ((dig a \<and> dig b \<and> dig c \<and> dig d) \<or> has_four_digits dig (b # c # d # cs))"
| "has_four_digits dig cs = False"

text \<open>The ASCII digits, a digit table to evaluate concrete texts with.\<close>

definition ascii_digit :: "codepoint \<Rightarrow> bool" where
  "ascii_digit c = (48 \<le> c \<and> c \<le> 57)"

text \<open>
  \<^verbatim>\<open>str(n)\<close> for an integer (what an f-string writes for it), and \<^verbatim>\<open>int(s)\<close> on the
  strings of an optional minus sign and ASCII digits. \<^verbatim>\<open>int\<close> raises \<^verbatim>\<open>ValueError\<close> on a
  string that is no number: that is \<open>None\<close>. (Python's \<^verbatim>\<open>int\<close> also reads surrounding
  whitespace, a plus sign, underscores and non-ASCII digits; the analyzer never hands it
  such a string, and they are \<open>None\<close> here as well.)
\<close>

fun str_of_nat :: "nat \<Rightarrow> pystr" where
  "str_of_nat n = (if n < 10 then [48 + n] else str_of_nat (n div 10) @ [48 + n mod 10])"

declare str_of_nat.simps [simp del]

definition str_of_int :: "int \<Rightarrow> pystr" where
  "str_of_int i = (if i < 0 then 45 # str_of_nat (nat (- i)) else str_of_nat (nat i))"

definition nat_of_digits :: "pystr \<Rightarrow> nat option" where
  "nat_of_digits s =
     (if s \<noteq> [] \<and> list_all ascii_digit s
      then Some (foldl (\<lambda>acc c. acc * 10 + (c - 48)) 0 s) else None)"

definition int_of_str :: "pystr \<Rightarrow> int option" where
  "int_of_str s =
     (case s of
        [] \<Rightarrow> None
      | c # cs \<Rightarrow>
          if c = 45 then map_option (\<lambda>n. - int n) (nat_of_digits cs)
          else map_option int (nat_of_digits s))"

text \<open>
  Python's floats are modelled as exact rationals: \<^verbatim>\<open>a / b\<close> is the exact quotient and
  \<^verbatim>\<open>x * 0.15\<close> the exact product. \<^verbatim>\<open>round(x, 1)\<close> rounds to one decimal place, a tie going
  to the even digit; \<^verbatim>\<open>int(x)\<close> truncates towards zero. The binary rounding error of a
  float is outside the model.
\<close>

definition round_half_even :: "rat \<Rightarrow> int" where
  "round_half_even x =
     (let f = \<lfloor>x\<rfloor>; d = x - of_int f
      in if d < 1 / 2 then f else if 1 / 2 < d then f + 1 else if even f then f else f + 1)"

definition py_round1 :: "rat \<Rightarrow> rat" where
  "py_round1 x = of_int (round_half_even (x * 10)) / 10"

definition py_int :: "rat \<Rightarrow> int" where
  "py_int x = (if 0 \<le> x then \<lfloor>x\<rfloor> else \<lceil>x\<rceil>)"

section \<open>\<^verbatim>\<open>collections.Counter\<close>\<close>

text \<open>
  A \<^verbatim>\<open>Counter\<close> is a dictionary from keys to counts that keeps its keys in the order of
  their first insertion: an association list. \<^verbatim>\<open>Counter(xs)\<close> adds the elements of \<open>xs\<close>
  one by one. \<^verbatim>\<open>most_common(n)\<close> is documented as the first \<open>n\<close> items of the items sorted
  by descending count, the sort being stable (equal counts keep the order of first
  insertion).
\<close>

type_synonym 'a counter = "('a \<times> nat) list"

fun counter_add :: "'a counter \<Rightarrow> 'a \<Rightarrow> 'a counter" where
  "counter_add [] x = [(x, 1)]"
| "counter_add ((k, n) # kns) x =
     (if k = x then (k, n + 1) # kns else (k, n) # counter_add kns x)"

definition Counter :: "'a list \<Rightarrow> 'a counter" where
  "Counter xs = foldl counter_add [] xs"

definition most_common :: "nat \<Rightarrow> 'a counter \<Rightarrow> ('a \<times> nat) list" where
  "most_common n c = take n (sort_key (\<lambda>kn. - int (snd kn)) c)"

section \<open>\<^verbatim>\<open>AdvancedScriptAnalyzer\<close>\<close>

text \<open>
  The object holds the text, its words and its non-empty stripped sentences, as
  \<^verbatim>\<open>__init__\<close> computes them.
\<close>

record analyzer =
  script_text :: pystr
  words :: "pystr list"
  sentences :: "pystr list"

definition AdvancedScriptAnalyzer :: "pystr \<Rightarrow> analyzer" where
  "AdvancedScriptAnalyzer text =
     \<lparr> script_text = text,
       words = str_split text,
       sentences = map str_strip (filter (\<lambda>s. str_strip s \<noteq> []) (str_split_on 46 text)) \<rparr>"

subsection \<open>\<^verbatim>\<open>_basic_analysis\<close>\<close>

record basic_metrics =
  word_count :: nat
  sentence_count :: nat
  char_count :: nat
  paragraph_count :: nat
  avg_sentence_length :: rat
  avg_word_length :: rat
  reading_time_minutes :: rat
  broadcast_time_seconds :: int

definition newline2 :: pystr where
  "newline2 = [10, 10]"

definition basic_analysis :: "analyzer \<Rightarrow> basic_metrics" where
  "basic_analysis self =
     (let wc = length (words self);
          sc = length (sentences self);
          cc = length (script_text self);
          pc = str_count newline2 (script_text self) + 1;
          asl = (if sc > 0 then of_nat wc / of_nat sc else 0);
          awl = (if wc > 0 then of_nat (sum_list (map length (words self))) / of_nat wc else 0);
          reading_time = of_nat wc / 150;
          broadcast_time = of_nat wc / (5 / 2)
      in \<lparr> word_count = wc,
           sentence_count = sc,
           char_count = cc,
           paragraph_count = pc,
           avg_sentence_length = py_round1 asl,
           avg_word_length = py_round1 awl,
           reading_time_minutes = py_round1 reading_time,
           broadcast_time_seconds = py_int broadcast_time \<rparr>)"

subsection \<open>\<^verbatim>\<open>_style_analysis\<close> and \<^verbatim>\<open>_detect_tone\<close>\<close>

text \<open>
  The lexicons. \<^verbatim>\<open>sum(1 for word in lexicon if word in text)\<close> counts the entries of a
  lexicon that occur in the text as substrings.

  The eighteen journalist indicators, transliterated: yaqa', taqa', yu'add, tu'add, yushir,
  tushir, wafqan, haythu, idh, baynama, min jiha, min nahiya, tarikhiyyan, haliyyan,
  mustaqbalan, al-masadir, al-taqarir, al-dirasat. The five personal pronouns and verbs:
  ana, nahnu, ash'ur, ara, a'taqid. The six formal words: yu'add, tu'tabar, yushir, wafqan,
  haythu, idh. The four informal words: ra'i', jamil, mudhhil, khayali.
\<close>

definition count_matches :: "pystr list \<Rightarrow> pystr \<Rightarrow> nat" where
  "count_matches lexicon text = length (filter (\<lambda>word. str_contains word text) lexicon)"

definition journalist_indicators :: "pystr list" where
  "journalist_indicators =
     [[1610, 1602, 1593],
      [1578, 1602, 1593],
      [1610, 1615, 1593, 1583],
      [1578, 1615, 1593, 1583],
      [1610, 1588, 1610, 1585],
      [1578, 1588, 1610, 1585],
      [1608, 1601, 1602, 1575, 1611],
      [1581, 1610, 1579],
      [1573, 1584],
      [1576, 1610, 1606, 1605, 1575],
      [1605, 1606, 32, 1580, 1607, 1577],
      [1605, 1606, 32, 1606, 1575, 1581, 1610, 1577],
      [1578, 1575, 1585, 1610, 1582, 1610, 1575, 1611],
      [1581, 1575, 1604, 1610, 1575, 1611],
      [1605, 1587, 1578, 1602, 1576, 1604, 1575, 1611],
      [1575, 1604, 1605, 1589, 1575, 1583, 1585],
      [1575, 1604, 1578, 1602, 1575, 1585, 1610, 1585],
      [1575, 1604, 1583, 1585, 1575, 1587, 1575, 1578]]"

definition personal_pronouns :: "pystr list" where
  "personal_pronouns =
     [[1571, 1606, 1575],
      [1606, 1581, 1606],
      [1571, 1588, 1593, 1585],
      [1571, 1585, 1609],
      [1571, 1593, 1578, 1602, 1583]]"

definition formal_words :: "pystr list" where
  "formal_words =
     [[1610, 1615, 1593, 1583],
      [1578, 1615, 1593, 1578, 1576, 1585],
      [1610, 1588, 1610, 1585],
      [1608, 1601, 1602, 1575, 1611],
      [1581, 1610, 1579],
      [1573, 1584]]"

definition informal_words :: "pystr list" where
  "informal_words =
     [[1585, 1575, 1574, 1593],
      [1580, 1605, 1610, 1604],
      [1605, 1584, 1607, 1604],
      [1582, 1610, 1575, 1604, 1610]]"

text \<open>The three tones: "rasmi" (formal), "ghayr rasmi" (informal), "mutawazin" (balanced).\<close>

definition tone_formal :: pystr where
  "tone_formal = [1585, 1587, 1605, 1610]"

definition tone_informal :: pystr where
  "tone_informal = [1594, 1610, 1585, 32, 1585, 1587, 1605, 1610]"

definition tone_balanced :: pystr where
  "tone_balanced = [1605, 1578, 1608, 1575, 1586, 1606]"

definition detect_tone :: "analyzer \<Rightarrow> pystr" where
  "detect_tone self =
     (let formal_count = count_matches formal_words (script_text self);
          informal_count = count_matches informal_words (script_text self)
      in if formal_count > informal_count * 2 then tone_formal
         else if informal_count > formal_count then tone_informal
         else tone_balanced)"

text \<open>The two style types: "i'lami muhtarif" (professional journalistic), "'amm" (generic).\<close>

definition style_professional :: pystr where
  "style_professional = [1573, 1593, 1604, 1575, 1605, 1610, 32, 1605, 1581, 1578, 1585, 1601]"

definition style_generic :: pystr where
  "style_generic = [1593, 1575, 1605]"

record style_profile =
  style_type :: pystr
  journalist_score :: nat
  objectivity :: pystr
  uses_data :: bool
  numbers_count :: nat
  has_dates :: bool
  well_structured :: bool
  tone :: pystr

text \<open>The objectivity score before it is written as a percentage.\<close>

definition objectivity_score :: "analyzer \<Rightarrow> int" where
  "objectivity_score self =
     max 0 (min 100 (100 - int (count_matches personal_pronouns (script_text self)) * 10))"

definition style_analysis :: "(codepoint \<Rightarrow> bool) \<Rightarrow> analyzer \<Rightarrow> style_profile" where
  "style_analysis dig self =
     (let score = count_matches journalist_indicators (script_text self);
          numbers = findall_digits_count dig (script_text self);
          dates = has_four_digits dig (script_text self);
          has_structure = (str_count newline2 (script_text self) \<ge> 2)
      in \<lparr> style_type = (if score \<ge> 5 then style_professional else style_generic),
           journalist_score = score,
           objectivity = str_of_int (objectivity_score self) @ [37],
           uses_data = (numbers > 0),
           numbers_count = numbers,
           has_dates = dates,
           well_structured = has_structure,
           tone = detect_tone self \<rparr>)"

subsection \<open>\<^verbatim>\<open>_content_analysis\<close>\<close>

text \<open>The characters \<^verbatim>\<open>strip\<close> removes: period, comma, exclamation mark, question mark,
  Arabic semicolon (U+061B) and colon.\<close>

definition punctuation :: pystr where
  "punctuation = [46, 44, 33, 63, 1563, 58]"

text \<open>
  \<^verbatim>\<open>[w.strip('.,!?\<dots>:') for w in self.words if len(w) > 3]\<close>: the words longer than three
  characters, each then stripped at both ends.
\<close>

definition counted_tokens :: "pystr list \<Rightarrow> pystr list" where
  "counted_tokens ws = map (str_strip_chars punctuation) (filter (\<lambda>w. length w > 3) ws)"

definition word_freq :: "analyzer \<Rightarrow> pystr counter" where
  "word_freq self = Counter (counted_tokens (words self))"

text \<open>The topics (history, culture, tourism, economy), each with its keywords.\<close>

definition topic_keywords :: "(pystr \<times> pystr list) list" where
  "topic_keywords =
     [([1578, 1575, 1585, 1610, 1582], [[1578, 1575, 1585, 1610, 1582], [1602, 1583, 1610,
        1605], [1593, 1589, 1585], [1581, 1602, 1576, 1577], [1602, 1585, 1606]]),
      ([1579, 1602, 1575, 1601, 1577], [[1579, 1602, 1575, 1601, 1577], [1578, 1585, 1575,
         1579], [1593, 1605, 1575, 1585, 1577], [1601, 1606]]),
      ([1587, 1610, 1575, 1581, 1577], [[1587, 1610, 1575, 1581, 1577], [1586, 1608, 1575,
         1585], [1586, 1610, 1575, 1585, 1577], [1580, 1608, 1604, 1577]]),
      ([1575, 1602, 1578, 1589, 1575, 1583], [[1575, 1602, 1578, 1589, 1575, 1583], [1575,
         1587, 1578, 1579, 1605, 1575, 1585], [1578, 1606, 1605, 1610, 1577], [1608, 1592,
            1575, 1574, 1601]])]"

definition source_words :: "pystr list" where
  "source_words =
     [[1575, 1604, 1605, 1589, 1575, 1583, 1585],
      [1575, 1604, 1605, 1585, 1580, 1593],
      [1575, 1604, 1583, 1585, 1575, 1587, 1577],
      [1575, 1604, 1578, 1602, 1585, 1610, 1585]]"

record content_profile =
  most_common_words :: "(pystr \<times> nat) list"
  topics_covered :: "pystr list"
  has_quotes :: bool
  mentions_sources :: bool
  diversity_score :: rat

definition content_analysis :: "analyzer \<Rightarrow> content_profile" where
  "content_analysis self =
     (let most = most_common 10 (word_freq self);
          topics = map fst (filter (\<lambda>(topic, keywords).
                      list_ex (\<lambda>kw. str_contains kw (script_text self)) keywords) topic_keywords);
          quotes = (str_contains [34] (script_text self) \<or> str_contains [39] (script_text self));
          mentions = list_ex (\<lambda>word. str_contains word (script_text self)) source_words
      in \<lparr> most_common_words = take 5 most,
           topics_covered = topics,
           has_quotes = quotes,
           mentions_sources = mentions,
           diversity_score =
             (if words self \<noteq> []
              then of_nat (card (set (words self))) / of_nat (length (words self)) else 0) \<rparr>)"

subsection \<open>\<^verbatim>\<open>_generate_recommendations\<close>\<close>

text \<open>
  Each rule appends one fixed dictionary (type, priority, issue, suggestion). The nine
  dictionaries are the constructors below, named by their issue: rule 1 (script too
  short), rule 2 (script too long), rule 3 (style not journalistic enough), rule 4
  (contains personal opinions), rule 5 (no numbers or statistics), rule 6 (no sources
  mentioned), rule 7 (not organised in paragraphs), rule 8 (sentences too long), and the
  entry added when no rule fired (no major issues).
\<close>

datatype recommendation =
  TooShort | TooLong | StyleNotJournalistic | PersonalOpinions | NoStatistics
  | NoSources | NotStructured | SentencesTooLong | NoMajorIssues

datatype priority = High | Medium | Info

fun priority_of :: "recommendation \<Rightarrow> priority" where
  "priority_of TooShort = High"
| "priority_of TooLong = Medium"
| "priority_of StyleNotJournalistic = High"
| "priority_of PersonalOpinions = High"
| "priority_of NoStatistics = Medium"
| "priority_of NoSources = High"
| "priority_of NotStructured = Medium"
| "priority_of SentencesTooLong = Medium"
| "priority_of NoMajorIssues = Info"

text \<open>The four entries of a recommendation's dictionary.\<close>

fun rec_type :: "recommendation \<Rightarrow> pystr" where
  "rec_type TooShort = [1575, 1604, 1591, 1608, 1604]"
| "rec_type TooLong = [1575, 1604, 1591, 1608, 1604]"
| "rec_type StyleNotJournalistic = [1575, 1604, 1571, 1587, 1604, 1608, 1576]"
| "rec_type PersonalOpinions = [1575, 1604, 1605, 1608, 1590, 1608, 1593, 1610, 1577]"
| "rec_type NoStatistics = [1575, 1604, 1576, 1610, 1575, 1606, 1575, 1578]"
| "rec_type NoSources = [1575, 1604, 1605, 1589, 1575, 1583, 1585]"
| "rec_type NotStructured = [1575, 1604, 1607, 1610, 1603, 1604, 1577]"
| "rec_type SentencesTooLong = [1575, 1604, 1602, 1585, 1575, 1569, 1577]"
| "rec_type NoMajorIssues = [1593, 1575, 1605]"

fun priority_str :: "priority \<Rightarrow> pystr" where
  "priority_str High = [1593, 1575, 1604, 1610, 1577]"
| "priority_str Medium = [1605, 1578, 1608, 1587, 1591, 1577]"
| "priority_str Info = [1605, 1593, 1604, 1608, 1605, 1577]"

fun rec_issue :: "recommendation \<Rightarrow> pystr" where
  "rec_issue TooShort = [1575, 1604, 1587, 1603, 1585, 1610, 1576, 1578, 32, 1602, 1589, 1610,
     1585, 32, 1580, 1583, 1575, 1611]"
| "rec_issue TooLong = [1575, 1604, 1587, 1603, 1585, 1610, 1576, 1578, 32, 1591, 1608, 1610,
   1604, 32, 1602, 1583, 32, 1610, 1603, 1608, 1606, 32, 1605, 1605, 1604, 1575, 1611]"
| "rec_issue StyleNotJournalistic = [1575, 1604, 1571, 1587, 1604, 1608, 1576, 32, 1594, 1610,
   1585, 32, 1573, 1593, 1604, 1575, 1605, 1610, 32, 1576, 1605, 1575, 32, 1610, 1603, 1601,
   1610]"
| "rec_issue PersonalOpinions = [1575, 1604, 1587, 1603, 1585, 1610, 1576, 1578, 32, 1610,
   1581, 1578, 1608, 1610, 32, 1593, 1604, 1609, 32, 1570, 1585, 1575, 1569, 32, 1588, 1582,
   1589, 1610, 1577]"
| "rec_issue NoStatistics = [1593, 1583, 1605, 32, 1608, 1580, 1608, 1583, 32, 1571, 1585,
   1602, 1575, 1605, 32, 1571, 1608, 32, 1573, 1581, 1589, 1575, 1574, 1610, 1575, 1578]"
| "rec_issue NoSources = [1593, 1583, 1605, 32, 1584, 1603, 1585, 32, 1575, 1604, 1605, 1589,
   1575, 1583, 1585]"
| "rec_issue NotStructured = [1575, 1604, 1587, 1603, 1585, 1610, 1576, 1578, 32, 1594, 1610,
   1585, 32, 1605, 1606, 1592, 1605, 32, 1601, 1610, 32, 1601, 1602, 1585, 1575, 1578]"
| "rec_issue SentencesTooLong = [1575, 1604, 1580, 1605, 1604, 32, 1591, 1608, 1610, 1604,
   1577, 32, 1580, 1583, 1575, 1611]"
| "rec_issue NoMajorIssues = [1604, 1575, 32, 1578, 1608, 1580, 1583, 32, 1605, 1588, 1575,
   1603, 1604, 32, 1603, 1576, 1610, 1585, 1577]"

fun rec_suggestion :: "recommendation \<Rightarrow> pystr" where
  "rec_suggestion TooShort = [1571, 1590, 1601, 32, 1575, 1604, 1605, 1586, 1610, 1583, 32,
     1605, 1606, 32, 1575, 1604, 1578, 1601, 1575, 1589, 1610, 1604, 32, 1608, 1575, 1604,
     1605, 1593, 1604, 1608, 1605, 1575, 1578, 32, 1575, 1604, 1582, 1604, 1601, 1610, 1577,
     46, 32, 1575, 1604, 1587, 1603, 1585, 1610, 1576, 1578, 32, 1575, 1604, 1573, 1593, 1604,
     1575, 1605, 1610, 32, 1575, 1604, 1580, 1610, 1583, 32, 1610, 1578, 1585, 1575, 1608,
     1581, 32, 1576, 1610, 1606, 32, 50, 48, 48, 45, 53, 48, 48, 32, 1603, 1604, 1605, 1577,
     46]"
| "rec_suggestion TooLong = [1581, 1575, 1608, 1604, 32, 1575, 1604, 1575, 1582, 1578, 1589,
   1575, 1585, 32, 1608, 1575, 1604, 1578, 1585, 1603, 1610, 1586, 32, 1593, 1604, 1609, 32,
   1575, 1604, 1606, 1602, 1575, 1591, 32, 1575, 1604, 1585, 1574, 1610, 1587, 1610, 1577, 46,
   32, 1602, 1587, 1617, 1605, 32, 1575, 1604, 1605, 1581, 1578, 1608, 1609, 32, 1573, 1604,
   1609, 32, 1578, 1602, 1585, 1610, 1585, 1610, 1606, 32, 1605, 1606, 1601, 1589, 1604, 1610,
   1606, 32, 1573, 1584, 1575, 32, 1604, 1586, 1605, 32, 1575, 1604, 1571, 1605, 1585, 46]"
| "rec_suggestion StyleNotJournalistic = [1575, 1587, 1578, 1582, 1583, 1605, 32, 1593, 1576,
   1575, 1585, 1575, 1578, 32, 1573, 1593, 1604, 1575, 1605, 1610, 1577, 32, 1575, 1581, 1578,
   1585, 1575, 1601, 1610, 1577, 32, 1605, 1579, 1604, 58, 32, 34, 1608, 1601, 1602, 1575,
   1611, 32, 1604, 1604, 1605, 1589, 1575, 1583, 1585, 34, 1548, 32, 34, 1578, 1588, 1610,
   1585, 32, 1575, 1604, 1578, 1602, 1575, 1585, 1610, 1585, 34, 1548, 32, 34, 1605, 1606, 32,
   1575, 1604, 1580, 1583, 1610, 1585, 32, 1576, 1575, 1604, 1584, 1603, 1585, 34, 46, 32,
   1578, 1580, 1606, 1576, 32, 1575, 1604, 1590, 1605, 1575, 1574, 1585, 32, 1575, 1604, 1588,
   1582, 1589, 1610, 1577, 46]"
| "rec_suggestion PersonalOpinions = [1581, 1575, 1601, 1592, 32, 1593, 1604, 1609, 32, 1575,
   1604, 1581, 1610, 1575, 1583, 32, 1575, 1604, 1589, 1581, 1601, 1610, 46, 32, 1575, 1587,
   1578, 1576, 1583, 1604, 32, 1575, 1604, 1570, 1585, 1575, 1569, 32, 1575, 1604, 1588, 1582,
   1589, 1610, 1577, 32, 1576, 1581, 1602, 1575, 1574, 1602, 32, 1608, 1576, 1610, 1575, 1606,
   1575, 1578, 32, 1605, 1608, 1579, 1602, 1577, 46]"
| "rec_suggestion NoStatistics = [1571, 1590, 1601, 32, 1571, 1585, 1602, 1575, 1605, 1575,
   1611, 32, 1608, 1573, 1581, 1589, 1575, 1574, 1610, 1575, 1578, 32, 1604, 1583, 1593, 1605,
   32, 1575, 1604, 1605, 1593, 1604, 1608, 1605, 1575, 1578, 46, 32, 1605, 1579, 1604, 58, 32,
   1593, 1583, 1583, 32, 1575, 1604, 1586, 1608, 1575, 1585, 1548, 32, 1575, 1604, 1578, 1603,
   1604, 1601, 1577, 1548, 32, 1575, 1604, 1605, 1587, 1575, 1581, 1577, 1548, 32, 1575, 1604,
   1578, 1608, 1575, 1585, 1610, 1582, 32, 1575, 1604, 1605, 1581, 1583, 1583, 1577, 46]"
| "rec_suggestion NoSources = [1575, 1584, 1603, 1585, 32, 1605, 1589, 1575, 1583, 1585, 32,
   1575, 1604, 1605, 1593, 1604, 1608, 1605, 1575, 1578, 32, 1604, 1586, 1610, 1575, 1583,
   1577, 32, 1575, 1604, 1605, 1589, 1583, 1575, 1602, 1610, 1577, 46, 32, 1605, 1579, 1604,
   58, 32, 34, 1608, 1601, 1602, 1575, 1611, 32, 1604, 1578, 1602, 1585, 1610, 1585, 32, 1575,
   1604, 1610, 1608, 1606, 1587, 1603, 1608, 34, 1548, 32, 34, 1581, 1587, 1576, 32, 1576,
   1610, 1575, 1606, 1575, 1578, 32, 1575, 1604, 1607, 1610, 1574, 1577, 34, 46]"
| "rec_suggestion NotStructured = [1602, 1587, 1617, 1605, 32, 1575, 1604, 1587, 1603, 1585,
   1610, 1576, 1578, 32, 1573, 1604, 1609, 32, 1601, 1602, 1585, 1575, 1578, 32, 1608, 1575,
   1590, 1581, 1577, 58, 32, 1605, 1602, 1583, 1605, 1577, 1548, 32, 1580, 1587, 1605, 32, 40,
   50, 45, 51, 32, 1601, 1602, 1585, 1575, 1578, 41, 1548, 32, 1582, 1575, 1578, 1605, 1577,
   46]"
| "rec_suggestion SentencesTooLong = [1575, 1582, 1578, 1589, 1585, 32, 1575, 1604, 1580, 1605,
   1604, 32, 1604, 1578, 1603, 1608, 1606, 32, 1571, 1587, 1607, 1604, 32, 1601, 1610, 32,
   1575, 1604, 1602, 1585, 1575, 1569, 1577, 32, 1608, 1575, 1604, 1601, 1607, 1605, 46, 32,
   1575, 1604, 1580, 1605, 1604, 1577, 32, 1575, 1604, 1605, 1579, 1575, 1604, 1610, 1577, 58,
   32, 49, 53, 45, 50, 48, 32, 1603, 1604, 1605, 1577, 46]"
| "rec_suggestion NoMajorIssues = [1575, 1604, 1587, 1603, 1585, 1610, 1576, 1578, 32, 1575,
   1581, 1578, 1585, 1575, 1601, 1610, 32, 1608, 1580, 1610, 1583, 32, 1575, 1604, 1576, 1606,
   1575, 1569, 46, 32, 1575, 1587, 1578, 1605, 1585, 32, 1593, 1604, 1609, 32, 1607, 1584,
   1575, 32, 1575, 1604, 1605, 1587, 1578, 1608, 1609, 33]"

text \<open>
  \<^verbatim>\<open>int(style['objectivity'].rstrip('%'))\<close>; \<open>None\<close> is the \<^verbatim>\<open>ValueError\<close> of \<^verbatim>\<open>int\<close>,
  which ends the call.
\<close>

definition objectivity_percent :: "style_profile \<Rightarrow> int option" where
  "objectivity_percent style = int_of_str (str_rstrip_chars [37] (objectivity style))"

definition generate_recommendations ::
  "basic_metrics \<Rightarrow> style_profile \<Rightarrow> content_profile \<Rightarrow> recommendation list option" where
  "generate_recommendations basic style content =
     (case objectivity_percent style of
        None \<Rightarrow> None
      | Some obj \<Rightarrow>
          (let recommendations =
                 (if word_count basic < 100 then [TooShort]
                  else if word_count basic > 600 then [TooLong] else [])
                 @ (if journalist_score style < 3 then [StyleNotJournalistic] else [])
                 @ (if obj < 80 then [PersonalOpinions] else [])
                 @ (if \<not> uses_data style then [NoStatistics] else [])
                 @ (if \<not> mentions_sources content then [NoSources] else [])
                 @ (if paragraph_count basic < 3 then [NotStructured] else [])
                 @ (if avg_sentence_length basic > 25 then [SentencesTooLong] else [])
           in Some (if recommendations = [] then [NoMajorIssues] else recommendations)))"

subsection \<open>\<^verbatim>\<open>_calculate_overall_score\<close>\<close>

text \<open>The ratings: "mumtaz" (excellent), "jayyid jiddan" (very good), "jayyid" (good),
  "maqbul" (acceptable), "yahtaj tahsin" (needs improvement).\<close>

definition rating_excellent :: pystr where
  "rating_excellent = [1605, 1605, 1578, 1575, 1586]"

definition rating_very_good :: pystr where
  "rating_very_good = [1580, 1610, 1583, 32, 1580, 1583, 1575, 1611]"

definition rating_good :: pystr where
  "rating_good = [1580, 1610, 1583]"

definition rating_acceptable :: pystr where
  "rating_acceptable = [1605, 1602, 1576, 1608, 1604]"

definition rating_needs_improvement :: pystr where
  "rating_needs_improvement = [1610, 1581, 1578, 1575, 1580, 32, 1578, 1581, 1587, 1610, 1606]"

record overall =
  score :: rat
  rating :: pystr
  max_score :: nat

text \<open>The sum of the seven terms, before it is rounded and capped.\<close>

definition raw_score :: "basic_metrics \<Rightarrow> style_profile \<Rightarrow> content_profile \<Rightarrow> int \<Rightarrow> rat" where
  "raw_score basic style content obj =
     (if 200 \<le> word_count basic \<and> word_count basic \<le> 500 then 20
      else if (150 \<le> word_count basic \<and> word_count basic < 200)
              \<or> (500 < word_count basic \<and> word_count basic \<le> 600) then 15
      else 10)
     + of_nat (min 25 (journalist_score style * 3))
     + of_int obj * (15 / 100)
     + (if uses_data style then 10 else 0)
     + (if has_dates style then 5 else 0)
     + (if mentions_sources content then 10 else 0)
     + (if paragraph_count basic \<ge> 3 then 5 else 0)
     + (if well_structured style then 5 else 0)
     + diversity_score content * 5"

definition rating_of :: "rat \<Rightarrow> pystr" where
  "rating_of s =
     (if s \<ge> 90 then rating_excellent
      else if s \<ge> 75 then rating_very_good
      else if s \<ge> 60 then rating_good
      else if s \<ge> 50 then rating_acceptable
      else rating_needs_improvement)"

definition calculate_overall_score ::
  "basic_metrics \<Rightarrow> style_profile \<Rightarrow> content_profile \<Rightarrow> overall option" where
  "calculate_overall_score basic style content =
     (case objectivity_percent style of
        None \<Rightarrow> None
      | Some obj \<Rightarrow>
          (let s = min 100 (py_round1 (raw_score basic style content obj))
           in Some \<lparr> score = s, rating = rating_of s, max_score = 100 \<rparr>))"

subsection \<open>\<^verbatim>\<open>analyze\<close>\<close>

text \<open>
  The value of the key \<^verbatim>\<open>'analysis'\<close> of the dictionary \<^verbatim>\<open>analyze\<close> returns (its only other
  key is the constant \<^verbatim>\<open>'success': True\<close>). \<^verbatim>\<open>datetime.now()\<close> reads the clock: the
  formatted reading is the parameter \<open>now\<close>. \<open>None\<close> is an exception raised on the way.
\<close>

record analysis =
  basic :: basic_metrics
  style :: style_profile
  content :: content_profile
  recommendations :: "recommendation list"
  overall_score :: overall
  analyzed_at :: pystr

definition analyze :: "(codepoint \<Rightarrow> bool) \<Rightarrow> pystr \<Rightarrow> analyzer \<Rightarrow> analysis option" where
  "analyze dig now self =
     (let b = basic_analysis self;
          s = style_analysis dig self;
          c = content_analysis self
      in case generate_recommendations b s c of
           None \<Rightarrow> None
         | Some recs \<Rightarrow>
             (case calculate_overall_score b s c of
                None \<Rightarrow> None
              | Some ov \<Rightarrow>
                  Some \<lparr> basic = b,
                         style = s,
                         content = c,
                         recommendations = recs,
                         overall_score = ov,
                         analyzed_at = now \<rparr>))"

section \<open>The reference data\<close>

text \<open>
  Modelled from the spec: the records of \<^verbatim>\<open>data/cities_landmarks.json\<close>, which is not among
  the sources. The spec's data model names the fields of a landmark and of a city and says
  which are optional; \<^verbatim>\<open>src/app.py\<close> reads the mandatory ones with \<^verbatim>\<open>d[key]\<close> and the
  optional ones with \<^verbatim>\<open>d.get(key, default)\<close>. A JSON value that the code only tests for
  truth and writes into an f-string is a \<open>jvalue\<close> (a string, an integer or a boolean; JSON
  floats, nulls and nested values in these places are not modelled);
  an optional key that may be absent is an \<open>option\<close>. An optional text that the code reads
  with the default \<^verbatim>\<open>''\<close> and then tests for truth is a string, empty when the key is absent;
  likewise an absent list or dictionary is the empty one.
\<close>

datatype jvalue = JStr pystr | JInt int | JBool bool

fun truthy :: "jvalue \<Rightarrow> bool" where
  "truthy (JStr s) = (s \<noteq> [])"
| "truthy (JInt i) = (i \<noteq> 0)"
| "truthy (JBool b) = b"

fun render :: "jvalue \<Rightarrow> pystr" where
  "render (JStr s) = s"
| "render (JInt i) = str_of_int i"
| "render (JBool b) = (if b then [84, 114, 117, 101] else [70, 97, 108, 115, 101])"

record info =
  unesco :: bool
  year_inscribed :: "jvalue option"
  unesco_criteria :: "jvalue option"
  inscription_name :: "jvalue option"
  age :: "jvalue option"
  best_time :: "jvalue option"
  visit_duration :: "jvalue option"
  entry_fee :: "jvalue option"
  guided_tours :: "jvalue option"

record story =
  story_title :: pystr
  story_content :: pystr
  story_year :: "jvalue option"
  story_sources :: "pystr list"
  story_type :: "jvalue option"

record key_landmark =
  kl_name :: pystr
  kl_year :: "jvalue option"
  kl_description :: pystr
  kl_significance :: "jvalue option"

record landmark =
  lm_name :: pystr
  lm_type :: pystr
  lm_category :: pystr
  lm_description :: pystr
  detailed_info :: pystr
  historical_significance :: pystr
  historical_development :: pystr
  archaeological_importance :: pystr
  architectural_features :: "(pystr \<times> jvalue) list"
  lm_info :: info
  statistics :: "(pystr \<times> jvalue) list"
  stories :: "story list"
  key_landmarks :: "key_landmark list"
  journalist_angles :: "pystr list"

record city =
  city_name :: pystr
  city_region :: pystr
  landmarks :: "(pystr \<times> landmark) list"

section \<open>The random source\<close>

text \<open>
  \<^verbatim>\<open>random.choice(seq)\<close> returns some element of a non-empty sequence; the draw is a
  number, read modulo the length. The sequence is given by its head and its tail, as the
  generator only ever chooses from a non-empty list.

  \<^verbatim>\<open>random.sample(population, k)\<close> returns \<open>k\<close> elements at distinct positions, in any
  order: \<open>k\<close> draws, each removing the element it takes. For \<open>k\<close> beyond the length Python
  raises \<^verbatim>\<open>ValueError\<close>; the generator calls it with \<open>k\<close> at most the length only.
\<close>

definition random_choice :: "nat \<Rightarrow> 'a \<Rightarrow> 'a list \<Rightarrow> 'a" where
  "random_choice draw x xs = (x # xs) ! (draw mod Suc (length xs))"

fun random_sample :: "(nat \<Rightarrow> nat) \<Rightarrow> 'a list \<Rightarrow> nat \<Rightarrow> 'a list" where
  "random_sample draws xs 0 = []"
| "random_sample draws [] (Suc k) = []"
| "random_sample draws (x # xs) (Suc k) =
     (let i = draws 0 mod Suc (length xs)
      in ((x # xs) ! i)
         # random_sample (\<lambda>j. draws (Suc j)) (take i (x # xs) @ drop (Suc i) (x # xs)) k)"

record draws =
  title_draw :: nat
  intro_draw :: nat
  story_draw :: nat
  landmark_draws :: "nat \<Rightarrow> nat"
  angle_draws :: "nat \<Rightarrow> nat"
  conclusion_draw :: nat

section \<open>\<^verbatim>\<open>ProfessionalScriptGenerator\<close>\<close>

text \<open>
  The object after \<^verbatim>\<open>__init__\<close>: the records of the city and of the landmark, the duration
  and the target number of words. \<^verbatim>\<open>__init__\<close> looks the city and the landmark up in the
  dataset; \<open>None\<close> is its \<^verbatim>\<open>KeyError\<close>.
\<close>

record generator =
  city_data :: city
  landmark_data :: landmark
  duration_seconds :: int
  target_words :: int

definition ProfessionalScriptGenerator ::
  "(pystr \<times> city) list \<Rightarrow> pystr \<Rightarrow> pystr \<Rightarrow> int \<Rightarrow> generator option" where
  "ProfessionalScriptGenerator cities city_id landmark_id duration =
     (case map_of cities city_id of
        None \<Rightarrow> None
      | Some c \<Rightarrow>
          (case map_of (landmarks c) landmark_id of
             None \<Rightarrow> None
           | Some l \<Rightarrow>
               Some \<lparr> city_data = c, landmark_data = l, duration_seconds = duration,
                      target_words = py_int (of_int duration * (5 / 2)) \<rparr>))"

subsection \<open>The sections\<close>

text \<open>\<^verbatim>\<open>_generate_intro\<close>: the title and the introduction, each one of three templates.\<close>

definition generate_intro :: "draws \<Rightarrow> generator \<Rightarrow> pystr \<times> pystr" where
  "generate_intro rnd self =
     (let c = city_data self; l = landmark_data self; i = lm_info l;
          title = random_choice (title_draw rnd)
            (lm_name l @ [58, 32] @ lm_category l)
            [lm_name l @ [32, 1601, 1610, 32] @ city_name c @ [32, 45, 32] @ lm_description l,
             [1578, 1602, 1585, 1610, 1585, 58, 32] @ lm_name l @ [32, 45, 32] @ lm_type l];
          intro = random_choice (intro_draw rnd)
            ([1601, 1610, 32] @ city_name c @ [1548, 32] @ city_region c @ [1548, 32, 1610,
               1602, 1593, 32] @ lm_name l
               @ [1548, 32] @ lm_description l @ [46, 32] @ detailed_info l)
            [[1610, 1615, 1593, 1583, 32] @ lm_name l @ [32, 1571, 1581, 1583, 32, 1571, 1576,
               1585, 1586, 32, 1575, 1604, 1605, 1593, 1575, 1604, 1605, 32, 1601, 1610, 32] @ city_name c
               @ [1548, 32, 1581, 1610, 1579, 32] @ lm_description l @ [46, 32] @ detailed_info l,
             lm_name l @ [32, 45, 32] @ lm_category l @ [32, 45, 32, 1605, 1593, 1604, 1605,
                32, 1575, 1587, 1578, 1579, 1606, 1575, 1574, 1610, 32, 1601, 1610, 32] @ city_name c
               @ [32] @ lm_description l @ [46, 32] @ detailed_info l];
          year = (case year_inscribed i of None \<Rightarrow> [1594, 1610, 1585, 32, 1605,
             1581, 1583, 1583] | Some v \<Rightarrow> render v);
          unesco_name = (case inscription_name i of None \<Rightarrow> lm_name l | Some v \<Rightarrow> render v)
      in (title,
          if unesco i
          then intro
               @ [32, 1575, 1604, 1605, 1608, 1602, 1593, 32, 1605, 1615, 1583, 1585, 1580, 32,
                  1601, 1610, 32, 1602, 1575, 1574, 1605, 1577, 32, 1575, 1604, 1578, 1585,
                  1575, 1579, 32, 1575, 1604, 1593, 1575, 1604, 1605, 1610, 32, 1604, 1604,
                  1610, 1608, 1606, 1587, 1603, 1608, 32, 1605, 1606, 1584, 32, 1593, 1575,
                  1605, 32] @ year
               @ [1605, 32, 1578, 1581, 1578, 32, 1575, 1587, 1605, 32, 39] @ unesco_name @ [39]
               @ (case unesco_criteria i of
                    None \<Rightarrow> []
                  | Some v \<Rightarrow> if truthy v then [32, 1608, 1601, 1602, 1575, 1611,
                     32, 1604, 1600] @ render v else [])
               @ [46]
          else intro))"

text \<open>\<^verbatim>\<open>_generate_historical_context\<close>.\<close>

definition generate_historical_context :: "generator \<Rightarrow> pystr" where
  "generate_historical_context self =
     (let l = landmark_data self
      in if historical_significance l \<noteq> [] then historical_significance l
         else (case age (lm_info l) of
                 None \<Rightarrow> []
               | Some v \<Rightarrow>
                   if truthy v
                   then [1610, 1593, 1608, 1583, 32, 1578, 1575, 1585, 1610, 1582, 32] @ lm_name l @ [32,
                      1573, 1604, 1609, 32] @ render v
                        @ [1548, 32, 1605, 1605, 1575, 32, 1610, 1580, 1593, 1604, 1607, 32,
                           1588, 1575, 1607, 1583, 1575, 1611, 32, 1593, 1604, 1609, 32, 1581,
                           1602, 1576, 32, 1578, 1575, 1585, 1610, 1582, 1610, 1577, 32, 1605,
                           1578, 1593, 1583, 1583, 1577, 46]
                   else []))"

text \<open>
  \<^verbatim>\<open>_generate_detailed_description\<close>. \<^verbatim>\<open>str.title()\<close> follows the case mappings of the
  interpreter's Unicode database, which is not part of the repository: it is the
  parameter \<open>title_case\<close>.
\<close>

definition format_key :: "(pystr \<Rightarrow> pystr) \<Rightarrow> pystr \<Rightarrow> pystr" where
  "format_key title_case key = title_case (str_replace_char 95 32 key)"

definition generate_detailed_description :: "(pystr \<Rightarrow> pystr) \<Rightarrow> generator \<Rightarrow> pystr" where
  "generate_detailed_description title_case self =
     (let l = landmark_data self;
          parts =
            (if architectural_features l \<noteq> []
             then [1605, 1606, 32, 1575, 1604, 1606, 1575, 1581, 1610, 1577, 32, 1575, 1604,
                1605, 1593, 1605, 1575, 1585, 1610, 1577, 58]
                  # map (\<lambda>(feature, desc).
                         [45, 32] @ format_key title_case feature @ [58, 32] @ render desc)
                      (take 3 (architectural_features l))
             else [])
            @ (if archaeological_importance l \<noteq> [] then [archaeological_importance l] else [])
            @ (if historical_development l \<noteq> [] then [historical_development l] else [])
      in str_join newline2 (if parts = [] then [detailed_info l] else parts))"

text \<open>\<^verbatim>\<open>_generate_significance\<close>.\<close>

definition generate_significance :: "generator \<Rightarrow> pystr" where
  "generate_significance self =
     (let l = landmark_data self;
          visitors = map_of (statistics l) [97, 110, 110, 117, 97, 108, 95, 118, 105, 115, 105,
             116, 111, 114, 115, 95, 50, 48, 50, 51];
          significance_parts =
            (if historical_significance l \<noteq> []
             then [[1578, 1575, 1585, 1610, 1582, 1610, 1575, 1611, 58, 32] @ historical_significance l] else [])
            @ (if unesco (lm_info l)
               then [[1579, 1602, 1575, 1601, 1610, 1575, 1611, 58, 32, 1610, 1605, 1579, 1604,
                  32] @ lm_name l
                     @ [32, 1602, 1610, 1605, 1577, 32, 1593, 1575, 1604, 1605, 1610, 1577, 32,
                        1575, 1587, 1578, 1579, 1606, 1575, 1574, 1610, 1577, 1548, 32, 1603,
                        1605, 1575, 32, 1571, 1602, 1585, 1578, 1607, 32, 1605, 1606, 1592,
                        1605, 1577, 32, 1575, 1604, 1610, 1608, 1606, 1587, 1603, 1608, 46]]
               else [])
            @ (case visitors of
                 None \<Rightarrow> []
               | Some v \<Rightarrow>
                   if truthy v
                   then [[1575, 1602, 1578, 1589, 1575, 1583, 1610, 1575, 1611, 58, 32, 1575,
                      1587, 1578, 1602, 1576, 1604, 32, 1575, 1604, 1605, 1608, 1602, 1593, 32] @ render v
                         @ [32, 1586, 1575, 1574, 1585, 32, 1601, 1610, 32, 50, 48, 50, 51,
                            1548, 32, 1605, 1605, 1575, 32, 1610, 1580, 1593, 1604, 1607, 32,
                            1605, 1581, 1585, 1603, 1575, 1611, 32, 1575, 1602, 1578, 1589,
                            1575, 1583, 1610, 1575, 1611, 32, 1605, 1607, 1605, 1575, 1611, 46]]
                   else [])
      in if significance_parts \<noteq> [] then str_join newline2 significance_parts else [])"

text \<open>\<^verbatim>\<open>_format_story\<close>.\<close>

definition format_story :: "story \<Rightarrow> pystr" where
  "format_story st =
     (case story_year st of
        None \<Rightarrow> story_content st
      | Some v \<Rightarrow>
          if truthy v then [91] @ render v @ [93, 10, 10] @ story_content st
          else story_content st)
     @ (if story_sources st \<noteq> []
        then [10, 10, 1575, 1604, 1605, 1589, 1575, 1583, 1585, 58, 32] @ str_join [44, 32] (take 3 (story_sources st)) else [])
     @ (case story_type st of
          None \<Rightarrow> []
        | Some v \<Rightarrow> if truthy v then [10, 10, 1575, 1604, 1606, 1608, 1593, 58, 32] @ render v else [])"

text \<open>\<^verbatim>\<open>_generate_key_landmarks\<close>.\<close>

definition describe_key_landmark :: "key_landmark \<Rightarrow> pystr" where
  "describe_key_landmark lm =
     [8226, 32] @ kl_name lm
     @ (case kl_year lm of
          None \<Rightarrow> []
        | Some v \<Rightarrow> if truthy v then [32, 40] @ render v @ [41] else [])
     @ [58, 32] @ kl_description lm
     @ (case kl_significance lm of
          None \<Rightarrow> []
        | Some v \<Rightarrow> if truthy v then [32, 1575, 1604, 1571, 1607, 1605, 1610, 1577,
           58, 32] @ render v else [])"

definition generate_key_landmarks :: "draws \<Rightarrow> generator \<Rightarrow> pystr" where
  "generate_key_landmarks rnd self =
     (let kls = key_landmarks (landmark_data self)
      in if kls = [] then []
         else (let num = nat (min (int (length kls))
                                  (max 2 (py_int (of_int (duration_seconds self) / 60))));
                   selected = random_sample (landmark_draws rnd) kls num
               in str_join newline2 (map describe_key_landmark selected)))"

text \<open>\<^verbatim>\<open>_generate_statistics\<close>.\<close>

definition generate_statistics :: "(pystr \<Rightarrow> pystr) \<Rightarrow> generator \<Rightarrow> pystr" where
  "generate_statistics title_case self =
     (let stats = statistics (landmark_data self)
      in if stats = [] then []
         else str_join [10]
                ([1575, 1604, 1571, 1585, 1602, 1575, 1605, 32, 1578, 1578, 1581, 1583, 1579,
                   58]
                 # map (\<lambda>(key, v). [8226, 32] @ format_key title_case key @ [58, 32] @ render v)
                     stats))"

text \<open>\<^verbatim>\<open>_suggest_journalist_angles\<close>.\<close>

definition suggest_journalist_angles :: "draws \<Rightarrow> generator \<Rightarrow> pystr" where
  "suggest_journalist_angles rnd self =
     (let angles = journalist_angles (landmark_data self)
      in if angles = [] then []
         else (let num = min (length angles) 5;
                   selected = random_sample (angle_draws rnd) angles num
               in str_join [10]
                    ([1586, 1608, 1575, 1610, 1575, 32, 1589, 1581, 1601, 1610, 1577, 32, 1605,
                       1602, 1578, 1585, 1581, 1577, 32, 1604, 1604, 1578, 1594, 1591, 1610,
                       1577, 58]
                     # map (\<lambda>(i, angle). str_of_nat i @ [46, 32] @ angle)
                         (List.enumerate 1 selected))))"

text \<open>\<^verbatim>\<open>_generate_visit_info\<close>.\<close>

definition visit_line :: "pystr \<Rightarrow> jvalue option \<Rightarrow> pystr list" where
  "visit_line label value =
     (case value of
        None \<Rightarrow> []
      | Some v \<Rightarrow> if truthy v then [label @ render v] else [])"

definition generate_visit_info :: "generator \<Rightarrow> pystr" where
  "generate_visit_info self =
     (let i = lm_info (landmark_data self)
      in str_join [10]
           ([1605, 1593, 1604, 1608, 1605, 1575, 1578, 32, 1593, 1605, 1604, 1610, 1577, 32,
              1604, 1604, 1586, 1610, 1575, 1585, 1577, 58]
            # visit_line [8226, 32, 1571, 1601, 1590, 1604, 32, 1608, 1602, 1578, 58, 32] (best_time i)
            @ visit_line [8226, 32, 1575, 1604, 1605, 1583, 1577, 32, 1575, 1604, 1605, 1602,
               1578, 1585, 1581, 1577, 58, 32] (visit_duration i)
            @ visit_line [8226, 32, 1585, 1587, 1608, 1605, 32, 1575, 1604, 1583, 1582, 1608,
               1604, 58, 32] (entry_fee i)
            @ visit_line [8226, 32, 1575, 1604, 1580, 1608, 1604, 1575, 1578, 32, 1575, 1604,
               1605, 1589, 1581, 1608, 1576, 1577, 58, 32] (guided_tours i)))"

text \<open>\<^verbatim>\<open>_generate_conclusion\<close>: one of four closing paragraphs.\<close>

definition generate_conclusion :: "draws \<Rightarrow> generator \<Rightarrow> pystr" where
  "generate_conclusion rnd self =
     (let c = city_data self; l = landmark_data self
      in random_choice (conclusion_draw rnd)
           ([1610, 1592, 1604, 32] @ lm_name l
              @ [32, 1588, 1575, 1607, 1583, 1575, 1611, 32, 1593, 1604, 1609, 32, 1593, 1592,
                 1605, 1577, 32, 1575, 1604, 1578, 1575, 1585, 1610, 1582, 32, 1608, 1575,
                 1604, 1581, 1590, 1575, 1585, 1577, 1548, 32, 1608, 1605, 1593, 1604, 1605,
                 1575, 1611, 32, 1610, 1587, 1578, 1581, 1602, 32, 1575, 1604, 1586, 1610,
                 1575, 1585, 1577, 32, 1608, 1575, 1604, 1583, 1585, 1575, 1587, 1577, 32,
                 1575, 1604, 1605, 1593, 1605, 1602, 1577, 46])
           [[1576, 1610, 1606, 32, 1575, 1604, 1605, 1575, 1590, 1610, 32, 1608, 1575, 1604,
              1581, 1575, 1590, 1585, 1548, 32, 1610, 1602, 1601, 32] @ lm_name l @ [32, 1603,
                 1580, 1587, 1585, 32, 1610, 1585, 1576, 1591, 32, 1575, 1604, 1571, 1580,
                 1610, 1575, 1604, 1548, 32, 1608, 1610, 1585, 1608, 1610, 32, 1602, 1589,
                 1577, 32]
              @ city_name c @ [32, 1575, 1604, 1593, 1585, 1610, 1602, 1577, 46],
            [1610, 1608, 1575, 1589, 1604, 32] @ lm_name l
              @ [32, 1580, 1584, 1576, 32, 1575, 1604, 1576, 1575, 1581, 1579, 1610, 1606, 32,
                 1608, 1575, 1604, 1586, 1608, 1575, 1585, 32, 1605, 1606, 32, 1605, 1582,
                 1578, 1604, 1601, 32, 1571, 1606, 1581, 1575, 1569, 32, 1575, 1604, 1593,
                 1575, 1604, 1605, 1548, 32, 1605, 1572, 1603, 1583, 1575, 1611, 32, 1605,
                 1603, 1575, 1606, 1578, 1607, 32, 1603, 1571, 1581, 1583, 32, 1571, 1607,
                 1605, 32, 1575, 1604, 1605, 1593, 1575, 1604, 1605, 32, 1601, 1610, 32, 1575,
                 1604, 1605, 1605, 1604, 1603, 1577, 46],
            [1601, 1610, 32, 1593, 1589, 1585, 32, 1575, 1604, 1578, 1581, 1608, 1604, 32,
               1608, 1575, 1604, 1578, 1591, 1608, 1610, 1585, 1548, 32, 1610, 1581, 1575,
               1601, 1592, 32] @ lm_name l
              @ [32, 1593, 1604, 1609, 32, 1607, 1608, 1610, 1578, 1607, 32, 1575, 1604, 1578,
                 1575, 1585, 1610, 1582, 1610, 1577, 1548, 32, 1605, 1602, 1583, 1605, 1575,
                 1611, 32, 1604, 1604, 1593, 1575, 1604, 1605, 32, 1606, 1605, 1608, 1584,
                 1580, 1575, 1611, 32, 1601, 1585, 1610, 1583, 1575, 1611, 32, 1604, 1604,
                 1581, 1601, 1575, 1592, 32, 1593, 1604, 1609, 32, 1575, 1604, 1578, 1585,
                 1575, 1579, 46]])"

subsection \<open>\<^verbatim>\<open>_build_full_script\<close> and \<^verbatim>\<open>_analyze_script\<close>\<close>

text \<open>
  The titles of the sections: title, introduction, historical background, detailed
  description, significance, "story: " (followed by the story's title), prominent
  landmarks, figures and statistics, suggested journalist angles, visit information,
  conclusion.
\<close>

definition sec_title :: pystr where
  "sec_title = [1575, 1604, 1593, 1606, 1608, 1575, 1606]"

definition sec_intro :: pystr where
  "sec_intro = [1575, 1604, 1605, 1602, 1583, 1605, 1577]"

definition sec_historical :: pystr where
  "sec_historical = [1575, 1604, 1582, 1604, 1601, 1610, 1577, 32, 1575, 1604, 1578, 1575,
     1585, 1610, 1582, 1610, 1577]"

definition sec_description :: pystr where
  "sec_description = [1575, 1604, 1608, 1589, 1601, 32, 1575, 1604, 1578, 1601, 1589, 1610,
     1604, 1610]"

definition sec_significance :: pystr where
  "sec_significance = [1575, 1604, 1571, 1607, 1605, 1610, 1577, 32, 1608, 1575, 1604, 1578,
     1601, 1585, 1583]"

definition sec_story :: pystr where
  "sec_story = [1602, 1589, 1577, 58, 32]"

definition sec_key_landmarks :: pystr where
  "sec_key_landmarks = [1575, 1604, 1605, 1593, 1575, 1604, 1605, 32, 1575, 1604, 1576, 1575,
     1585, 1586, 1577]"

definition sec_statistics :: pystr where
  "sec_statistics = [1571, 1585, 1602, 1575, 1605, 32, 1608, 1573, 1581, 1589, 1575, 1574,
     1610, 1575, 1578]"

definition sec_angles :: pystr where
  "sec_angles = [1586, 1608, 1575, 1610, 1575, 32, 1589, 1581, 1601, 1610, 1577, 32, 1605,
     1602, 1578, 1585, 1581, 1577]"

definition sec_visit_info :: pystr where
  "sec_visit_info = [1605, 1593, 1604, 1608, 1605, 1575, 1578, 32, 1575, 1604, 1586, 1610,
     1575, 1585, 1577]"

definition sec_conclusion :: pystr where
  "sec_conclusion = [1575, 1604, 1582, 1575, 1578, 1605, 1577]"

definition build_full_script :: "(pystr \<times> pystr) list \<Rightarrow> pystr" where
  "build_full_script sections =
     str_join newline2 (map snd (filter (\<lambda>(t, body). t \<noteq> sec_title) sections))"

text \<open>The readability labels: "sahl" (easy), "mutawassit" (medium), "mutaqaddim" (advanced).\<close>

definition readability_easy :: pystr where
  "readability_easy = [1587, 1607, 1604]"

definition readability_medium :: pystr where
  "readability_medium = [1605, 1578, 1608, 1587, 1591]"

definition readability_advanced :: pystr where
  "readability_advanced = [1605, 1578, 1602, 1583, 1605]"

record summary =
  summary_word_count :: nat
  summary_sentence_count :: nat
  summary_avg_sentence_length :: rat
  readability :: pystr
  summary_most_common_words :: "(pystr \<times> nat) list"
  summary_paragraph_count :: nat

definition analyze_script :: "pystr \<Rightarrow> summary" where
  "analyze_script script =
     (let ws = str_split script;
          ss = str_split_on 46 script;
          wc = length ws;
          sc = length (filter (\<lambda>s. str_strip s \<noteq> []) ss);
          asl = (if sc > 0 then of_nat wc / of_nat sc else 0);
          freq = Counter (counted_tokens ws);
          most = most_common 10 freq
      in \<lparr> summary_word_count = wc,
           summary_sentence_count = sc,
           summary_avg_sentence_length = py_round1 asl,
           readability =
             (if asl < 15 then readability_easy
              else if asl < 25 then readability_medium else readability_advanced),
           summary_most_common_words = take 5 most,
           summary_paragraph_count = str_count newline2 script + 1 \<rparr>)"

subsection \<open>\<^verbatim>\<open>generate\<close>\<close>

text \<open>
  The value of the key \<^verbatim>\<open>'script'\<close> of the dictionary \<^verbatim>\<open>generate\<close> returns: the title, the
  full text, the sections, the duration, the counts, the estimated reading time and the
  analysis. The other keys copy fields of the two records or hold constants and the clock
  reading; they are left out.
\<close>

record script =
  title :: pystr
  full_text :: pystr
  sections :: "(pystr \<times> pystr) list"
  script_duration_seconds :: int
  script_word_count :: nat
  script_char_count :: nat
  estimated_reading_time :: pystr
  script_analysis :: summary

definition script_sections ::
  "(pystr \<Rightarrow> pystr) \<Rightarrow> draws \<Rightarrow> generator \<Rightarrow> (pystr \<times> pystr) list" where
  "script_sections title_case rnd self =
     (let d = duration_seconds self;
          ti = generate_intro rnd self
      in [(sec_title, fst ti), (sec_intro, snd ti)]
         @ (if d \<ge> 90 then [(sec_historical, generate_historical_context self)] else [])
         @ [(sec_description, generate_detailed_description title_case self)]
         @ (if d \<ge> 60 then [(sec_significance, generate_significance self)] else [])
         @ (if d \<ge> 120
            then (case stories (landmark_data self) of
                    [] \<Rightarrow> []
                  | st # sts \<Rightarrow>
                      (let chosen = random_choice (story_draw rnd) st sts
                       in [(sec_story @ story_title chosen, format_story chosen)]))
            else [])
         @ (if d \<ge> 90
            then (let kl = generate_key_landmarks rnd self
                  in if kl \<noteq> [] then [(sec_key_landmarks, kl)] else [])
            else [])
         @ (if d \<ge> 150
            then (let stats = generate_statistics title_case self
                  in if stats \<noteq> [] then [(sec_statistics, stats)] else [])
            else [])
         @ (if d \<ge> 180
            then (let angles = suggest_journalist_angles rnd self
                  in if angles \<noteq> [] then [(sec_angles, angles)] else [])
            else [])
         @ (if d \<ge> 60 then [(sec_visit_info, generate_visit_info self)] else [])
         @ [(sec_conclusion, generate_conclusion rnd self)])"

definition generate :: "(pystr \<Rightarrow> pystr) \<Rightarrow> draws \<Rightarrow> generator \<Rightarrow> script" where
  "generate title_case rnd self =
     (let secs = script_sections title_case rnd self;
          full_script = build_full_script secs
      in \<lparr> title = snd (hd secs),
           full_text = full_script,
           sections = secs,
           script_duration_seconds = duration_seconds self,
           script_word_count = length (str_split full_script),
           script_char_count = length full_script,
           estimated_reading_time =
             str_of_int (py_int (of_nat (length (str_split full_script)) / 150)) @ [32, 1583,
                1602, 1610, 1602, 1577],
           script_analysis = analyze_script full_script \<rparr>)"

section \<open>The returned dictionaries as values\<close>

text \<open>
  The two analyses are returned as Python dictionaries. To compare them as Python's
  \<^verbatim>\<open>==\<close> does, both are also given as values: a number, a string, a boolean, a list, a
  tuple or a dictionary with its keys in order. \<open>dict_get\<close> is \<^verbatim>\<open>d.get(key)\<close>.
\<close>

datatype pyval =
  VNum rat | VStr pystr | VBool bool | VList "pyval list" | VTuple "pyval list"
  | VDict "(string \<times> pyval) list"

fun dict_get :: "string \<Rightarrow> pyval \<Rightarrow> pyval option" where
  "dict_get key (VDict items) = map_of items key"
| "dict_get key v = None"

text \<open>
  An item of \<^verbatim>\<open>most_common\<close> as \<^verbatim>\<open>_analyze_script\<close> returns it (the tuple itself) and as
  \<^verbatim>\<open>_content_analysis\<close> returns it (a dictionary with the keys \<^verbatim>\<open>'word'\<close> and \<^verbatim>\<open>'count'\<close>).
\<close>

definition word_tuple :: "pystr \<times> nat \<Rightarrow> pyval" where
  "word_tuple wn = VTuple [VStr (fst wn), VNum (of_nat (snd wn))]"

definition word_entry :: "pystr \<times> nat \<Rightarrow> pyval" where
  "word_entry wn = VDict [(''word'', VStr (fst wn)), (''count'', VNum (of_nat (snd wn)))]"

definition summary_dict :: "summary \<Rightarrow> pyval" where
  "summary_dict a =
     VDict [(''word_count'', VNum (of_nat (summary_word_count a))),
            (''sentence_count'', VNum (of_nat (summary_sentence_count a))),
            (''avg_sentence_length'', VNum (summary_avg_sentence_length a)),
            (''readability'', VStr (readability a)),
            (''most_common_words'',
               VList (map word_tuple (summary_most_common_words a))),
            (''paragraph_count'', VNum (of_nat (summary_paragraph_count a)))]"

definition basic_dict :: "basic_metrics \<Rightarrow> pyval" where
  "basic_dict b =
     VDict [(''word_count'', VNum (of_nat (word_count b))),
            (''sentence_count'', VNum (of_nat (sentence_count b))),
            (''char_count'', VNum (of_nat (char_count b))),
            (''paragraph_count'', VNum (of_nat (paragraph_count b))),
            (''avg_sentence_length'', VNum (avg_sentence_length b)),
            (''avg_word_length'', VNum (avg_word_length b)),
            (''reading_time_minutes'', VNum (reading_time_minutes b)),
            (''broadcast_time_seconds'', VNum (of_int (broadcast_time_seconds b)))]"

definition style_dict :: "style_profile \<Rightarrow> pyval" where
  "style_dict s =
     VDict [(''style_type'', VStr (style_type s)),
            (''journalist_score'', VNum (of_nat (journalist_score s))),
            (''objectivity'', VStr (objectivity s)),
            (''uses_data'', VBool (uses_data s)),
            (''numbers_count'', VNum (of_nat (numbers_count s))),
            (''has_dates'', VBool (has_dates s)),
            (''well_structured'', VBool (well_structured s)),
            (''tone'', VStr (tone s))]"

definition content_dict :: "content_profile \<Rightarrow> pyval" where
  "content_dict c =
     VDict [(''most_common_words'',
               VList (map word_entry (most_common_words c))),
            (''topics_covered'', VList (map VStr (topics_covered c))),
            (''has_quotes'', VBool (has_quotes c)),
            (''mentions_sources'', VBool (mentions_sources c)),
            (''diversity_score'', VNum (diversity_score c))]"

definition recommendation_dict :: "recommendation \<Rightarrow> pyval" where
  "recommendation_dict r =
     VDict [(''type'', VStr (rec_type r)),
            (''priority'', VStr (priority_str (priority_of r))),
            (''issue'', VStr (rec_issue r)),
            (''suggestion'', VStr (rec_suggestion r))]"

definition overall_dict :: "overall \<Rightarrow> pyval" where
  "overall_dict ov =
     VDict [(''score'', VNum (score ov)),
            (''rating'', VStr (rating ov)),
            (''max_score'', VNum (of_nat (max_score ov)))]"

definition analysis_dict :: "analysis \<Rightarrow> pyval" where
  "analysis_dict a =
     VDict [(''basic'', basic_dict (basic a)),
            (''style'', style_dict (style a)),
            (''content'', content_dict (content a)),
            (''recommendations'', VList (map recommendation_dict (recommendations a))),
            (''overall_score'', overall_dict (overall_score a)),
            (''analyzed_at'', VStr (analyzed_at a))]"

text \<open>The whole dictionary \<^verbatim>\<open>analyze\<close> returns.\<close>

definition analyze_response_dict :: "analysis \<Rightarrow> pyval" where
  "analyze_response_dict a = VDict [(''success'', VBool True), (''analysis'', analysis_dict a)]"

section \<open>Sample data\<close>

text \<open>
  A landmark with every optional section populated, its city, a dataset holding them, a
  generator for a thirty-second script, fixed draws, a stand-in for \<^verbatim>\<open>str.title\<close> that
  leaves its argument unchanged, two clock readings and three short texts. They serve to
  evaluate the functions on concrete inputs.
\<close>

definition test_landmark :: landmark where
  "test_landmark =
     \<lparr> lm_name = [77, 97, 115, 109, 97, 107],
       lm_type = [102, 111, 114, 116],
       lm_category = [104, 101, 114, 105, 116, 97, 103, 101],
       lm_description = [97, 32, 99, 108, 97, 121, 32, 102, 111, 114, 116],
       detailed_info = [66, 117, 105, 108, 116, 32, 105, 110, 32, 49, 56, 54, 53, 46],
       historical_significance = [67, 97, 112, 116, 117, 114, 101, 100, 32, 105, 110, 32, 49,
          57, 48, 50, 46],
       historical_development = [],
       archaeological_importance = [],
       architectural_features = [([109, 97, 105, 110, 95, 103, 97, 116, 101], JStr [112, 97,
          108, 109, 32, 119, 111, 111, 100])],
       lm_info =
         \<lparr> unesco = True, year_inscribed = Some (JInt 2010), unesco_criteria = None,
           inscription_name = None, age = None, best_time = Some (JStr [119, 105, 110, 116,
              101, 114]),
           visit_duration = None, entry_fee = Some (JInt 0),
           guided_tours = Some (JBool True) \<rparr>,
       statistics = [([97, 110, 110, 117, 97, 108, 95, 118, 105, 115, 105, 116, 111, 114, 115,
          95, 50, 48, 50, 51], JInt 5000)],
       stories =
         [\<lparr> story_title = [84, 104, 101, 32, 103, 97, 116, 101],
            story_content = [65, 32, 115, 112, 101, 97, 114, 32, 104, 105, 116, 32, 116, 104,
               101, 32, 103, 97, 116, 101, 46],
            story_year = Some (JInt 1902),
            story_sources = [[97, 114, 99, 104, 105, 118, 101]],
            story_type = None \<rparr>],
       key_landmarks =
         [\<lparr> kl_name = [84, 111, 119, 101, 114], kl_year = None,
            kl_description = [97, 32, 119, 97, 116, 99, 104, 32, 116, 111, 119, 101, 114], kl_significance = None \<rparr>,
          \<lparr> kl_name = [87, 101, 108, 108], kl_year = Some (JInt 1865),
            kl_description = [116, 104, 101, 32, 111, 108, 100, 32, 119, 101, 108, 108], kl_significance = Some (JStr [119,
               97, 116, 101, 114]) \<rparr>],
       journalist_angles = [[114, 101, 115, 116, 111, 114, 97, 116, 105, 111, 110], [116, 111,
          117, 114, 105, 115, 109]] \<rparr>"

definition test_city :: city where
  "test_city =
     \<lparr> city_name = [82, 105, 121, 97, 100, 104], city_region = [78, 97, 106, 100],
       landmarks = [([109, 97, 115, 109, 97, 107], test_landmark)] \<rparr>"

definition test_cities :: "(pystr \<times> city) list" where
  "test_cities = [([114, 105, 121, 97, 100, 104], test_city)]"

definition test_generator :: generator where
  "test_generator =
     \<lparr> city_data = test_city, landmark_data = test_landmark, duration_seconds = 30,
       target_words = 75 \<rparr>"

definition test_draws :: draws where
  "test_draws =
     \<lparr> title_draw = 0, intro_draw = 1, story_draw = 0, landmark_draws = id,
       angle_draws = id, conclusion_draw = 2 \<rparr>"

definition keep_case :: "pystr \<Rightarrow> pystr" where
  "keep_case s = s"

definition clock_one :: pystr where
  "clock_one = [50, 48, 50, 54, 45, 48, 49, 45, 48, 49, 32, 49, 48, 58, 48, 48, 58, 48, 48]"

definition clock_two :: pystr where
  "clock_two = [50, 48, 50, 54, 45, 48, 49, 45, 48, 49, 32, 49, 48, 58, 48, 48, 58, 48, 49]"

text \<open>"aaaa bbbb aaaa cccc, dddd eeee ffff bbbb": six distinct words of four letters.\<close>

definition six_words :: pystr where
  "six_words = [97, 97, 97, 97, 32, 98, 98, 98, 98, 32, 97, 97, 97, 97, 32, 99, 99, 99, 99, 44,
     32, 100, 100, 100, 100, 32, 101, 101, 101, 101, 32, 102, 102, 102, 102, 32, 98, 98, 98,
     98]"

text \<open>"abc. .abcd": a word of three letters before a period, and a period before a word.\<close>

definition punctuated :: pystr where
  "punctuated = [97, 98, 99, 46, 32, 46, 97, 98, 99, 100]"

text \<open>"haythu jamil" in Arabic letters: one formal word and one informal word.\<close>

definition one_formal_one_informal :: pystr where
  "one_formal_one_informal = [1581, 1610, 1579] @ [32] @ [1580, 1605, 1610, 1604]"

section \<open>Writing and reading back an integer\<close>

text \<open>
  The objectivity score is written into the style profile as a percentage string and read
  back by the recommendation engine and by the scorer. Reading back what was written
  returns the number, so neither of them raises.
\<close>

lemma str_of_nat_digits: "str_of_nat n \<noteq> [] \<and> list_all ascii_digit (str_of_nat n)"
proof (induction n rule: str_of_nat.induct)
  case (1 n)
  show ?case
  proof (cases "n < 10")
    case True
    then show ?thesis by (simp add: str_of_nat.simps [of n] ascii_digit_def)
  next
    case False
    have "n mod 10 < 10" by simp
    then have "ascii_digit (48 + n mod 10)" unfolding ascii_digit_def by linarith
    with False 1 show ?thesis by (simp add: str_of_nat.simps [of n])
  qed
qed

lemma foldl_str_of_nat: "foldl (\<lambda>acc c. acc * 10 + (c - 48)) 0 (str_of_nat n) = n"
proof (induction n rule: str_of_nat.induct)
  case (1 n)
  show ?case
  proof (cases "n < 10")
    case True
    then show ?thesis by (simp add: str_of_nat.simps [of n])
  next
    case False
    with 1 show ?thesis by (simp add: str_of_nat.simps [of n])
  qed
qed

lemma nat_of_digits_str_of_nat: "nat_of_digits (str_of_nat n) = Some n"
  by (simp add: nat_of_digits_def str_of_nat_digits foldl_str_of_nat)

lemma str_of_nat_no_percent: "37 \<notin> set (str_of_nat n)" "45 \<notin> set (str_of_nat n)"
  using str_of_nat_digits [of n] by (auto simp: list_all_iff ascii_digit_def)

lemma rstrip_percent: "str_rstrip_chars [37] (str_of_nat n @ [37]) = str_of_nat n"
proof -
  obtain d ds where r: "rev (str_of_nat n) = d # ds"
    using str_of_nat_digits [of n] by (cases "rev (str_of_nat n)") auto
  then have "d \<in> set (str_of_nat n)" by (metis list.set_intros(1) set_rev)
  then have "d \<noteq> 37" using str_of_nat_no_percent(1) [of n] by auto
  then have "rev (dropWhile (\<lambda>c. c \<in> set [37]) (rev (str_of_nat n @ [37]))) = rev (d # ds)"
    using r by simp
  then show ?thesis unfolding str_rstrip_chars_def using r by (metis rev_rev_ident)
qed

lemma int_of_str_percent:
  assumes "0 \<le> i"
  shows "int_of_str (str_rstrip_chars [37] (str_of_int i @ [37])) = Some i"
proof -
  obtain d ds where s: "str_of_nat (nat i) = d # ds"
    using str_of_nat_digits [of "nat i"] by (cases "str_of_nat (nat i)") auto
  then have "d \<in> set (str_of_nat (nat i))" by simp
  then have "d \<noteq> 45" using str_of_nat_no_percent(2) [of "nat i"] by auto
  then have "int_of_str (str_of_nat (nat i)) = map_option int (nat_of_digits (str_of_nat (nat i)))"
    using s by (simp add: int_of_str_def)
  with assms show ?thesis
    by (simp add: str_of_int_def rstrip_percent nat_of_digits_str_of_nat)
qed

lemma count_matches_le: "count_matches lexicon text \<le> length lexicon"
  by (simp add: count_matches_def)

lemma objectivity_score_bounds: "50 \<le> objectivity_score self \<and> objectivity_score self \<le> 100"
proof -
  have "length personal_pronouns = 5" by (simp add: personal_pronouns_def)
  then have "count_matches personal_pronouns (script_text self) \<le> 5"
    using count_matches_le [of personal_pronouns "script_text self"] by simp
  then show ?thesis unfolding objectivity_score_def by linarith
qed

lemma objectivity_percent_style:
  "objectivity_percent (style_analysis dig self) = Some (objectivity_score self)"
  using objectivity_score_bounds [of self]
  by (simp add: objectivity_percent_def style_analysis_def Let_def int_of_str_percent)

section \<open>Bounds on the score\<close>

lemma round_half_even_ge_floor: "\<lfloor>x\<rfloor> \<le> round_half_even x"
  by (simp add: round_half_even_def Let_def)

lemma py_round1_lower: "of_int k / 10 \<le> x \<Longrightarrow> of_int k / 10 \<le> py_round1 x"
proof -
  assume "of_int k / 10 \<le> x"
  then have "of_int k \<le> x * 10" by (simp add: divide_le_eq)
  then have "k \<le> \<lfloor>x * 10\<rfloor>" by (simp add: le_floor_iff)
  then have "k \<le> round_half_even (x * 10)"
    using round_half_even_ge_floor [of "x * 10"] by linarith
  then show ?thesis unfolding py_round1_def by (simp add: divide_le_cancel)
qed

lemma py_round1_zero: "py_round1 0 = 0"
  by (simp add: py_round1_def round_half_even_def)

lemma diversity_score_range:
  "0 \<le> diversity_score (content_analysis self) \<and> diversity_score (content_analysis self) \<le> 1"
proof -
  have "card (set (words self)) \<le> length (words self)" by (rule card_length)
  then have "(of_nat (card (set (words self))) :: rat) \<le> of_nat (length (words self))"
    by (simp only: of_nat_le_iff)
  then show ?thesis
    by (simp add: content_analysis_def Let_def divide_le_eq_1)
qed

lemma raw_score_lower:
  assumes "50 \<le> obj" and "0 \<le> diversity_score c"
  shows "35 / 2 \<le> raw_score b s c obj"
proof -
  have a: "(10::rat) \<le> (if 200 \<le> word_count b \<and> word_count b \<le> 500 then 20
      else if (150 \<le> word_count b \<and> word_count b < 200)
              \<or> (500 < word_count b \<and> word_count b \<le> 600) then 15
      else 10)" by simp
  have b: "(0::rat) \<le> of_nat (min 25 (journalist_score s * 3))" by simp
  have "(50::rat) \<le> of_int obj" using assms(1) by simp
  then have c: "(15 / 2 :: rat) \<le> of_int obj * (15 / 100)" by simp
  have d: "(0::rat) \<le> diversity_score c * 5" using assms(2) by simp
  show ?thesis unfolding raw_score_def using a b c d by (simp add: add_increasing2 add_mono)
qed

lemma analyzer_fields [simp]:
  "script_text (AdvancedScriptAnalyzer text) = text"
  "words (AdvancedScriptAnalyzer text) = str_split text"
  by (simp_all add: AdvancedScriptAnalyzer_def)

lemma analyze_succeeds:
  "analyze dig now self =
     Some \<lparr> basic = basic_analysis self,
            style = style_analysis dig self,
            content = content_analysis self,
            recommendations =
              the (generate_recommendations (basic_analysis self) (style_analysis dig self)
                     (content_analysis self)),
            overall_score =
              the (calculate_overall_score (basic_analysis self) (style_analysis dig self)
                     (content_analysis self)),
            analyzed_at = now \<rparr>"
  by (simp add: analyze_def Let_def generate_recommendations_def calculate_overall_score_def
      objectivity_percent_style)

lemma overall_score_eq:
  "calculate_overall_score b (style_analysis dig self) c =
     Some \<lparr> score = min 100 (py_round1 (raw_score b (style_analysis dig self) c (objectivity_score self))),
            rating = rating_of (min 100 (py_round1 (raw_score b (style_analysis dig self) c (objectivity_score self)))),
            max_score = 100 \<rparr>"
  by (simp add: calculate_overall_score_def objectivity_percent_style Let_def)

lemma score_lower:
  "35 / 2 \<le> min 100 (py_round1 (raw_score b s (content_analysis self) (objectivity_score self)))"
proof -
  have "35 / 2 \<le> raw_score b s (content_analysis self) (objectivity_score self)"
    using raw_score_lower objectivity_score_bounds diversity_score_range by blast
  then have "of_int 175 / 10 \<le> raw_score b s (content_analysis self) (objectivity_score self)"
    by simp
  then have "of_int 175 / 10 \<le> py_round1 (raw_score b s (content_analysis self) (objectivity_score self))"
    by (rule py_round1_lower)
  then show ?thesis by simp
qed

section \<open>The analysis of the empty text\<close>

lemma analyzer_empty:
  "AdvancedScriptAnalyzer [] = \<lparr>script_text = [], words = [], sentences = []\<rparr>"
  by (simp add: AdvancedScriptAnalyzer_def str_split_def str_strip_def)

lemma basic_analysis_empty:
  "basic_analysis (AdvancedScriptAnalyzer []) =
     \<lparr> word_count = 0, sentence_count = 0, char_count = 0, paragraph_count = 1,
       avg_sentence_length = 0, avg_word_length = 0, reading_time_minutes = 0,
       broadcast_time_seconds = 0 \<rparr>"
  by (simp add: analyzer_empty basic_analysis_def py_round1_zero py_int_def newline2_def)

lemma count_matches_empty:
  "count_matches journalist_indicators [] = 0"
  "count_matches personal_pronouns [] = 0"
  "count_matches formal_words [] = 0"
  "count_matches informal_words [] = 0"
  by (simp_all add: count_matches_def journalist_indicators_def personal_pronouns_def
      formal_words_def informal_words_def)

lemma style_analysis_empty:
  "style_analysis dig (AdvancedScriptAnalyzer []) =
     \<lparr> style_type = style_generic, journalist_score = 0,
       objectivity = str_of_int 100 @ [37], uses_data = False, numbers_count = 0,
       has_dates = False, well_structured = False, tone = tone_balanced \<rparr>"
  by (simp add: analyzer_empty style_analysis_def detect_tone_def objectivity_score_def
      count_matches_empty findall_digits_count_def newline2_def)

lemma content_analysis_empty:
  "content_analysis (AdvancedScriptAnalyzer []) =
     \<lparr> most_common_words = [], topics_covered = [], has_quotes = False,
       mentions_sources = False, diversity_score = 0 \<rparr>"
  by (simp add: analyzer_empty content_analysis_def word_freq_def counted_tokens_def
      Counter_def most_common_def topic_keywords_def source_words_def)

lemma objectivity_score_empty: "objectivity_score (AdvancedScriptAnalyzer []) = 100"
  by (simp add: analyzer_empty objectivity_score_def count_matches_empty)

lemma recommendations_empty:
  "generate_recommendations (basic_analysis (AdvancedScriptAnalyzer []))
     (style_analysis dig (AdvancedScriptAnalyzer [])) (content_analysis (AdvancedScriptAnalyzer []))
   = Some [TooShort, StyleNotJournalistic, NoStatistics, NoSources, NotStructured]"
  unfolding generate_recommendations_def objectivity_percent_style objectivity_score_empty
  by (simp add: basic_analysis_empty style_analysis_empty content_analysis_empty)

lemma overall_empty:
  "calculate_overall_score (basic_analysis (AdvancedScriptAnalyzer []))
     (style_analysis dig (AdvancedScriptAnalyzer [])) (content_analysis (AdvancedScriptAnalyzer []))
   = Some \<lparr> score = 25, rating = rating_needs_improvement, max_score = 100 \<rparr>"
proof -
  have r: "py_round1 25 = 25"
    by (simp add: py_round1_def round_half_even_def)
  show ?thesis
    unfolding overall_score_eq objectivity_score_empty
    by (simp add: raw_score_def basic_analysis_empty style_analysis_empty content_analysis_empty
        r rating_of_def)
qed

lemma analyze_empty:
  "analyze dig now (AdvancedScriptAnalyzer []) =
     Some \<lparr> basic = basic_analysis (AdvancedScriptAnalyzer []),
            style = style_analysis dig (AdvancedScriptAnalyzer []),
            content = content_analysis (AdvancedScriptAnalyzer []),
            recommendations = [TooShort, StyleNotJournalistic, NoStatistics, NoSources, NotStructured],
            overall_score = \<lparr> score = 25, rating = rating_needs_improvement, max_score = 100 \<rparr>,
            analyzed_at = now \<rparr>"
  unfolding analyze_succeeds recommendations_empty overall_empty by simp

section \<open>The counter and its most common items\<close>

lemma map_of_counter_add:
  "map_of (counter_add c x) k =
     (if k = x then Some (case map_of c x of None \<Rightarrow> 1 | Some n \<Rightarrow> n + 1) else map_of c k)"
  by (induction c x rule: counter_add.induct) auto

lemma keys_counter_add:
  "map fst (counter_add c x) = (if x \<in> set (map fst c) then map fst c else map fst c @ [x])"
  by (induction c x rule: counter_add.induct) auto

lemma map_of_foldl_counter_add:
  "map_of (foldl counter_add c xs) k =
     (case map_of c k of
        None \<Rightarrow> if count_list xs k = 0 then None else Some (count_list xs k)
      | Some n \<Rightarrow> Some (n + count_list xs k))"
proof (induction xs arbitrary: c)
  case Nil
  then show ?case by (simp split: option.splits)
next
  case (Cons x xs)
  show ?case
    by (simp add: Cons.IH map_of_counter_add split: option.splits)
qed

lemma map_of_Counter:
  "map_of (Counter xs) k = (if count_list xs k = 0 then None else Some (count_list xs k))"
  by (simp add: Counter_def map_of_foldl_counter_add)

lemma remdups_snoc: "remdups (ys @ [x]) = filter (\<lambda>y. y \<noteq> x) (remdups ys) @ [x]"
  by (induction ys) auto

lemma keys_foldl_counter_add:
  "map fst (foldl counter_add c xs) =
     map fst c @ filter (\<lambda>x. x \<notin> set (map fst c)) (rev (remdups (rev xs)))"
proof (induction xs arbitrary: c)
  case Nil
  then show ?case by simp
next
  case (Cons x xs)
  have r: "rev (remdups (rev (x # xs))) = x # filter (\<lambda>y. y \<noteq> x) (rev (remdups (rev xs)))"
    by (simp add: remdups_snoc rev_filter)
  have f: "filter (\<lambda>y. y \<notin> set (map fst c)) (filter (\<lambda>y. y \<noteq> x) zs)
      = filter (\<lambda>y. y \<notin> set (map fst c)) zs" if "x \<in> set (map fst c)" for zs
    using that by (induction zs) auto
  have g: "filter (\<lambda>y. y \<notin> set (map fst c @ [x])) zs
      = filter (\<lambda>y. y \<notin> set (map fst c)) (filter (\<lambda>y. y \<noteq> x) zs)" for zs
    by (induction zs) auto
  show ?case
  proof (cases "x \<in> set (map fst c)")
    case True
    have "map fst (foldl counter_add c (x # xs)) =
        map fst c @ filter (\<lambda>y. y \<notin> set (map fst c)) (rev (remdups (rev xs)))"
      using True by (simp add: Cons.IH keys_counter_add)
    also have "\<dots> = map fst c @ filter (\<lambda>y. y \<notin> set (map fst c)) (rev (remdups (rev (x # xs))))"
      using True by (simp only: r filter.simps f) simp
    finally show ?thesis .
  next
    case False
    have "map fst (foldl counter_add c (x # xs)) =
        (map fst c @ [x]) @ filter (\<lambda>y. y \<notin> set (map fst c @ [x])) (rev (remdups (rev xs)))"
      using False by (simp add: Cons.IH keys_counter_add)
    also have "\<dots> = map fst c @ filter (\<lambda>y. y \<notin> set (map fst c)) (rev (remdups (rev (x # xs))))"
      using False by (simp only: r filter.simps g) simp
    finally show ?thesis .
  qed
qed

lemma keys_Counter: "map fst (Counter xs) = rev (remdups (rev xs))"
  by (simp add: Counter_def keys_foldl_counter_add)

lemma distinct_Counter: "distinct (map fst (Counter xs))"
  by (simp add: keys_Counter)

lemma count_list_map_filter:
  "count_list (map f (filter P xs)) k = length (filter (\<lambda>x. P x \<and> f x = k) xs)"
  by (induction xs) auto

lemma Counter_entry:
  "(k, n) \<in> set (Counter xs) \<longleftrightarrow> n = count_list xs k \<and> 0 < n"
proof -
  have "(k, n) \<in> set (Counter xs) \<longleftrightarrow> map_of (Counter xs) k = Some n"
    using distinct_Counter [of xs] by (metis map_of_eq_Some_iff)
  then show ?thesis by (auto simp: map_of_Counter)
qed

lemma length_most_common: "length (most_common n c) = min n (length c)"
  by (simp add: most_common_def)

lemma set_most_common: "set (most_common n c) \<subseteq> set c"
  using set_take_subset [of n "sort_key (\<lambda>kn. - int (snd kn)) c"] by (simp add: most_common_def)

lemma sorted_most_common: "sorted_wrt (\<lambda>p q. snd q \<le> snd p) (most_common n c)"
proof -
  have "sorted (map (\<lambda>kn. - int (snd kn)) (sort_key (\<lambda>kn. - int (snd kn)) c))"
    by (rule sorted_sort_key)
  then have "sorted_wrt (\<lambda>p q. snd q \<le> snd p) (sort_key (\<lambda>kn. - int (snd kn)) c)"
    by (simp add: sorted_wrt_map)
  then show ?thesis unfolding most_common_def by (rule sorted_wrt_take)
qed

lemma ties_most_common:
  "prefix (filter (\<lambda>p. snd p = m) (most_common n c)) (filter (\<lambda>p. snd p = m) c)"
proof -
  have "filter (\<lambda>p. - int (snd p) = - int m) (sort_key (\<lambda>kn. - int (snd kn)) c)
      = filter (\<lambda>p. - int (snd p) = - int m) c"
    by (rule sort_key_stable)
  then have "filter (\<lambda>p. snd p = m) (sort_key (\<lambda>kn. - int (snd kn)) c) = filter (\<lambda>p. snd p = m) c"
    by simp
  moreover have "prefix (filter (\<lambda>p. snd p = m) (most_common n c))
      (filter (\<lambda>p. snd p = m) (sort_key (\<lambda>kn. - int (snd kn)) c))"
    unfolding most_common_def by (rule filter_mono_prefix) (rule take_is_prefix)
  ultimately show ?thesis by simp
qed

lemma top_most_common:
  assumes "p \<in> set c" and "p \<notin> set (most_common n c)" and "q \<in> set (most_common n c)"
  shows "snd p \<le> snd q"
proof -
  let ?s = "sort_key (\<lambda>kn. - int (snd kn)) c"
  have "sorted (map (\<lambda>kn. - int (snd kn)) (take n ?s @ drop n ?s))"
    using sorted_sort_key [of "\<lambda>kn. - int (snd kn)" c] by simp
  then have *: "\<forall>x\<in>set (take n ?s). \<forall>y\<in>set (drop n ?s). - int (snd x) \<le> - int (snd y)"
    by (simp only: map_append sorted_append) auto
  have "set ?s = set (take n ?s) \<union> set (drop n ?s)"
    by (metis append_take_drop_id set_append)
  moreover have "p \<in> set ?s" using assms(1) by simp
  ultimately have "p \<in> set (drop n ?s)" using assms(2) unfolding most_common_def by blast
  with * assms(3) show ?thesis unfolding most_common_def by fastforce
qed

lemma take_most_common: "take m (most_common n c) = most_common (min m n) c"
  by (simp add: most_common_def)

lemma most_common_words_eq:
  "most_common_words (content_analysis self) = most_common 5 (word_freq self)"
  by (simp add: content_analysis_def Let_def take_most_common)

section \<open>The most common words of the two analyses\<close>

lemma word_tuple_neq_entry: "word_tuple wn \<noteq> word_entry wn'"
  by (simp add: word_tuple_def word_entry_def)

lemma map_tuple_eq_entry: "(map word_tuple xs = map word_entry xs) = (xs = [])"
  by (cases xs) (simp_all add: word_tuple_neq_entry)

lemma summary_most_common_eq:
  "summary_most_common_words (analyze_script script)
     = most_common 5 (word_freq (AdvancedScriptAnalyzer script))"
  by (simp add: analyze_script_def Let_def take_most_common word_freq_def)

section \<open>Substrings and stripping\<close>

lemma str_strip_chars_both_ends:
  "\<exists>pre post. w = pre @ str_strip_chars chars w @ post
     \<and> set pre \<subseteq> set chars \<and> set post \<subseteq> set chars
     \<and> (str_strip_chars chars w = []
          \<or> (hd (str_strip_chars chars w) \<notin> set chars
              \<and> last (str_strip_chars chars w) \<notin> set chars))"
proof -
  let ?P = "\<lambda>c. c \<in> set chars"
  let ?a = "dropWhile ?P w"
  let ?b = "rev (dropWhile ?P (rev ?a))"
  let ?pre = "takeWhile ?P w"
  let ?post = "rev (takeWhile ?P (rev ?a))"
  have b: "str_strip_chars chars w = ?b" by (simp add: str_strip_chars_def)
  have "rev ?a = takeWhile ?P (rev ?a) @ dropWhile ?P (rev ?a)" by simp
  then have "rev (rev ?a) = rev (takeWhile ?P (rev ?a) @ dropWhile ?P (rev ?a))" by simp
  then have a: "?a = ?b @ ?post" by (simp only: rev_rev_ident rev_append)
  have "w = ?pre @ ?a" by simp
  with a have w: "w = ?pre @ ?b @ ?post" by simp
  have pre: "set ?pre \<subseteq> set chars" using set_takeWhileD by fastforce
  have post: "set ?post \<subseteq> set chars" using set_takeWhileD by fastforce
  have ends: "hd ?b \<notin> set chars \<and> last ?b \<notin> set chars" if nb: "?b \<noteq> []"
  proof
    have "?a \<noteq> []" using a nb by (metis Nil_is_append_conv)
    then have "\<not> ?P (hd ?a)" by (rule hd_dropWhile)
    moreover have "hd ?a = hd ?b" using a nb by (metis hd_append2)
    ultimately show "hd ?b \<notin> set chars" by simp
    from nb have "dropWhile ?P (rev ?a) \<noteq> []" by simp
    then have "\<not> ?P (hd (dropWhile ?P (rev ?a)))" by (rule hd_dropWhile)
    then show "last ?b \<notin> set chars" using nb by (simp add: last_rev)
  qed
  show ?thesis
    unfolding b using w pre post ends by blast
qed

lemma str_contains_sublist: "str_contains sub s \<longleftrightarrow> sublist sub s"
proof (induction s)
  case Nil
  then show ?case by simp
next
  case (Cons c cs)
  have "take (length sub) (c # cs) = sub \<longleftrightarrow> prefix sub (c # cs)"
    by (metis append_eq_conv_conj prefix_def)
  then show ?case using Cons by (cases sub) (auto simp: sublist_Cons_right)
qed

section \<open>The sections of a short script\<close>

lemma section_titles_distinct:
  "sec_historical \<notin> set [sec_title, sec_intro, sec_description, sec_conclusion]"
  "sec_significance \<notin> set [sec_title, sec_intro, sec_description, sec_conclusion]"
  "sec_key_landmarks \<notin> set [sec_title, sec_intro, sec_description, sec_conclusion]"
  "sec_statistics \<notin> set [sec_title, sec_intro, sec_description, sec_conclusion]"
  "sec_angles \<notin> set [sec_title, sec_intro, sec_description, sec_conclusion]"
  "sec_visit_info \<notin> set [sec_title, sec_intro, sec_description, sec_conclusion]"
  "\<not> list_ex (prefix sec_story) [sec_title, sec_intro, sec_description, sec_conclusion]"
  by (simp_all add: sec_title_def sec_intro_def sec_description_def sec_conclusion_def
      sec_historical_def sec_significance_def sec_key_landmarks_def sec_statistics_def
      sec_angles_def sec_visit_info_def sec_story_def)

lemma script_sections_30:
  "duration_seconds self = 30 \<Longrightarrow>
   script_sections title_case rnd self =
     [(sec_title, fst (generate_intro rnd self)),
      (sec_intro, snd (generate_intro rnd self)),
      (sec_description, generate_detailed_description title_case self),
      (sec_conclusion, generate_conclusion rnd self)]"
  by (simp add: script_sections_def Let_def)

lemma length_random_sample: "length (random_sample ds xs k) = min k (length xs)"
proof (induction ds xs k rule: random_sample.induct)
  case (3 draws x xs k)
  define i where "i = draws 0 mod Suc (length xs)"
  have "i < Suc (length xs)" unfolding i_def by (rule mod_less_divisor) simp
  then have "length (take i (x # xs) @ drop (Suc i) (x # xs)) = length xs"
    by (auto simp: min_def)
  with "3.IH" show ?case unfolding i_def by (simp add: Let_def)
qed simp_all

section \<open>Evaluation on the sample texts\<close>

lemma isspace_sample [simp]:
  "isspace 32" "\<not> isspace 44" "\<not> isspace 46" "\<not> isspace 97" "\<not> isspace 98"
  "\<not> isspace 99" "\<not> isspace 100" "\<not> isspace 101" "\<not> isspace 102"
  by (simp_all add: isspace_def)

lemma word_freq_six_words:
  "word_freq (AdvancedScriptAnalyzer six_words) =
     [([97, 97, 97, 97], 2), ([98, 98, 98, 98], 2), ([99, 99, 99, 99], 1), ([100, 100, 100,
        100], 1), ([101, 101, 101, 101], 1),
      ([102, 102, 102, 102], 1)]"
  by (simp add: word_freq_def str_split_def six_words_def counted_tokens_def Counter_def
      str_strip_chars_def punctuation_def)

lemma most_common_six_words:
  "most_common 10 (word_freq (AdvancedScriptAnalyzer six_words)) =
     [([97, 97, 97, 97], 2), ([98, 98, 98, 98], 2), ([99, 99, 99, 99], 1), ([100, 100, 100,
        100], 1), ([101, 101, 101, 101], 1),
      ([102, 102, 102, 102], 1)]"
  by (simp add: word_freq_six_words most_common_def sort_key_def)

lemma most_common_words_six_words:
  "most_common_words (content_analysis (AdvancedScriptAnalyzer six_words)) =
     [([97, 97, 97, 97], 2), ([98, 98, 98, 98], 2), ([99, 99, 99, 99], 1), ([100, 100, 100,
        100], 1), ([101, 101, 101, 101], 1)]"
  by (simp add: content_analysis_def Let_def most_common_six_words)

lemma counts_one_formal_one_informal:
  "count_matches formal_words one_formal_one_informal = 1"
  "count_matches informal_words one_formal_one_informal = 1"
  by (simp_all add: count_matches_def formal_words_def informal_words_def
      one_formal_one_informal_def)

lemma generator_duration:
  "ProfessionalScriptGenerator cities city_id landmark_id d = Some g \<Longrightarrow> duration_seconds g = d"
  by (auto simp: ProfessionalScriptGenerator_def split: option.splits)

lemma generator_of_test_cities:
  "ProfessionalScriptGenerator test_cities [114, 105, 121, 97, 100, 104] [109, 97, 115, 109,
     97, 107] 30 = Some test_generator"
  by (simp add: ProfessionalScriptGenerator_def test_cities_def test_city_def
      test_generator_def py_int_def)

section \<open>The claims\<close>

subsection \<open>C1: the analysis attached to a generated script\<close>

text \<open>
  C1 (as amended). For every city and landmark record, every duration and all random
  choices, the analysis attached to the result of \<^verbatim>\<open>generate\<close> is the generator's own
  summary \<^verbatim>\<open>_analyze_script\<close> of the assembled full text: a dictionary of the word count,
  the sentence count, the average sentence length, a readability label, the most common
  words and the paragraph count. It is never equal to what the standalone analysis
  returns for the same text (neither to its \<^verbatim>\<open>'analysis'\<close> dictionary nor to the whole
  response), whatever the clock reading: a different function is applied. The four numbers
  are those of the standalone basic metrics. The most common words are the same five
  items of the frequency table in the same order, but as tuples, where the standalone
  content analysis gives dictionaries with the keys \<^verbatim>\<open>'word'\<close> and \<^verbatim>\<open>'count'\<close>: the two lists
  are equal only when they are empty.
\<close>

theorem generate_analysis_is_own_summary:
  "script_analysis (generate title_case rnd self)
     = analyze_script (full_text (generate title_case rnd self))
   \<and> summary_dict (script_analysis (generate title_case rnd self)) =
       VDict
         [(''word_count'',
             VNum (of_nat (word_count (basic_analysis
               (AdvancedScriptAnalyzer (full_text (generate title_case rnd self))))))),
          (''sentence_count'',
             VNum (of_nat (sentence_count (basic_analysis
               (AdvancedScriptAnalyzer (full_text (generate title_case rnd self))))))),
          (''avg_sentence_length'',
             VNum (avg_sentence_length (basic_analysis
               (AdvancedScriptAnalyzer (full_text (generate title_case rnd self)))))),
          (''readability'',
             VStr (readability (analyze_script (full_text (generate title_case rnd self))))),
          (''most_common_words'',
             VList (map word_tuple (most_common 5 (word_freq
               (AdvancedScriptAnalyzer (full_text (generate title_case rnd self))))))),
          (''paragraph_count'',
             VNum (of_nat (paragraph_count (basic_analysis
               (AdvancedScriptAnalyzer (full_text (generate title_case rnd self)))))))]
   \<and> dict_get ''most_common_words'' (content_dict (content_analysis
         (AdvancedScriptAnalyzer (full_text (generate title_case rnd self)))))
       = Some (VList (map word_entry (most_common 5 (word_freq
           (AdvancedScriptAnalyzer (full_text (generate title_case rnd self)))))))
   \<and> (dict_get ''most_common_words'' (summary_dict (script_analysis (generate title_case rnd self)))
        = dict_get ''most_common_words'' (content_dict (content_analysis
            (AdvancedScriptAnalyzer (full_text (generate title_case rnd self))))))
       = (most_common 5 (word_freq
           (AdvancedScriptAnalyzer (full_text (generate title_case rnd self)))) = [])
   \<and> Some (summary_dict (script_analysis (generate title_case rnd self)))
       \<noteq> map_option analysis_dict (analyze dig now
             (AdvancedScriptAnalyzer (full_text (generate title_case rnd self))))
   \<and> Some (summary_dict (script_analysis (generate title_case rnd self)))
       \<noteq> map_option analyze_response_dict (analyze dig now
             (AdvancedScriptAnalyzer (full_text (generate title_case rnd self))))"
proof -
  let ?t = "full_text (generate title_case rnd self)"
  let ?A = "AdvancedScriptAnalyzer ?t"
  have a: "script_analysis (generate title_case rnd self) = analyze_script ?t"
    by (simp add: generate_def Let_def)
  have s: "summary_dict (analyze_script ?t) =
       VDict
         [(''word_count'', VNum (of_nat (word_count (basic_analysis ?A)))),
          (''sentence_count'', VNum (of_nat (sentence_count (basic_analysis ?A)))),
          (''avg_sentence_length'', VNum (avg_sentence_length (basic_analysis ?A))),
          (''readability'', VStr (readability (analyze_script ?t))),
          (''most_common_words'', VList (map word_tuple (most_common 5 (word_freq ?A)))),
          (''paragraph_count'', VNum (of_nat (paragraph_count (basic_analysis ?A))))]"
    unfolding summary_dict_def summary_most_common_eq
    by (simp add: analyze_script_def basic_analysis_def AdvancedScriptAnalyzer_def Let_def)
  have c: "dict_get ''most_common_words'' (content_dict (content_analysis ?A))
       = Some (VList (map word_entry (most_common 5 (word_freq ?A))))"
    by (simp add: content_dict_def most_common_words_eq)
  have g: "dict_get ''most_common_words'' (summary_dict (analyze_script ?t))
       = Some (VList (map word_tuple (most_common 5 (word_freq ?A))))"
    unfolding s by simp
  have e: "(dict_get ''most_common_words'' (summary_dict (analyze_script ?t))
        = dict_get ''most_common_words'' (content_dict (content_analysis ?A)))
       = (most_common 5 (word_freq ?A) = [])"
    unfolding g c by (simp only: option.inject pyval.inject map_tuple_eq_entry)
  have n: "Some (summary_dict (analyze_script ?t)) \<noteq> map_option analysis_dict (analyze dig now ?A)"
    "Some (summary_dict (analyze_script ?t)) \<noteq> map_option analyze_response_dict (analyze dig now ?A)"
    by (simp_all add: analyze_succeeds summary_dict_def analysis_dict_def analyze_response_dict_def)
  show ?thesis
    unfolding a by (intro conjI refl s c e n)
qed

text \<open>
  The claim as stated fails: for the sample landmark the dictionary attached by
  \<^verbatim>\<open>generate\<close> differs from the dictionary the standalone analysis returns for the same
  full text.
\<close>

theorem generate_analysis_not_pipeline_result:
  "Some (summary_dict (script_analysis (generate keep_case test_draws test_generator)))
   \<noteq> map_option analysis_dict
        (analyze ascii_digit clock_one
           (AdvancedScriptAnalyzer (full_text (generate keep_case test_draws test_generator))))"
  by (simp add: analyze_succeeds summary_dict_def analysis_dict_def)

subsection \<open>C2: the most frequent words\<close>

text \<open>
  C2 (as amended). For every input text, the content analysis returns the five (not ten)
  most frequent counted tokens: as many as there are, up to five; entries of the frequency
  table; ordered by descending frequency; tokens of equal frequency in the order of the
  table, the earliest of them chosen; and no token left out is more frequent than a token
  returned. The table lists the counted tokens in the order of their first occurrence
  (\<open>rev (remdups (rev xs))\<close> keeps the first occurrence of each element of \<open>xs\<close>), each with
  the number of its occurrences.
\<close>

theorem content_top_five_by_frequency:
  "length (most_common_words (content_analysis (AdvancedScriptAnalyzer text)))
     = min 5 (length (word_freq (AdvancedScriptAnalyzer text)))
   \<and> set (most_common_words (content_analysis (AdvancedScriptAnalyzer text)))
       \<subseteq> set (word_freq (AdvancedScriptAnalyzer text))
   \<and> sorted_wrt (\<lambda>p q. snd q \<le> snd p)
       (most_common_words (content_analysis (AdvancedScriptAnalyzer text)))
   \<and> (\<forall>m. prefix
         (filter (\<lambda>p. snd p = m)
            (most_common_words (content_analysis (AdvancedScriptAnalyzer text))))
         (filter (\<lambda>p. snd p = m) (word_freq (AdvancedScriptAnalyzer text))))
   \<and> (\<forall>p\<in>set (word_freq (AdvancedScriptAnalyzer text)).
         p \<notin> set (most_common_words (content_analysis (AdvancedScriptAnalyzer text))) \<longrightarrow>
         (\<forall>q\<in>set (most_common_words (content_analysis (AdvancedScriptAnalyzer text))).
            snd p \<le> snd q))
   \<and> map fst (word_freq (AdvancedScriptAnalyzer text))
       = rev (remdups (rev (counted_tokens (str_split text))))
   \<and> (\<forall>k n. (k, n) \<in> set (word_freq (AdvancedScriptAnalyzer text)) \<longleftrightarrow>
         n = count_list (counted_tokens (str_split text)) k \<and> 0 < n)"
  unfolding most_common_words_eq
  using top_most_common [of _ "word_freq (AdvancedScriptAnalyzer text)" 5]
  by (simp add: length_most_common set_most_common sorted_most_common ties_most_common
      word_freq_def keys_Counter Counter_entry)

text \<open>
  Witness: in the sample text of six distinct words, "ffff" is in the table and is left
  out, and every word returned occurs at least as often.
\<close>

theorem content_top_five_by_frequency_witness:
  "([102, 102, 102, 102], 1) \<in> set (word_freq (AdvancedScriptAnalyzer six_words))
   \<and> ([102, 102, 102, 102], 1)
       \<notin> set (most_common_words (content_analysis (AdvancedScriptAnalyzer six_words)))
   \<and> list_all (\<lambda>q. 1 \<le> snd q)
       (most_common_words (content_analysis (AdvancedScriptAnalyzer six_words)))
   \<and> length (most_common_words (content_analysis (AdvancedScriptAnalyzer six_words))) = 5"
  using content_top_five_by_frequency [of six_words]
  by (simp add: word_freq_six_words most_common_words_six_words)

text \<open>
  The claim as stated fails: the sample text has six counted tokens, \<^verbatim>\<open>most_common(10)\<close>
  holds all six, and the content analysis returns five of them.
\<close>

theorem content_returns_five_not_ten:
  "most_common 10 (word_freq (AdvancedScriptAnalyzer six_words)) =
     [([97, 97, 97, 97], 2), ([98, 98, 98, 98], 2), ([99, 99, 99, 99], 1), ([100, 100, 100,
        100], 1), ([101, 101, 101, 101], 1),
      ([102, 102, 102, 102], 1)]
   \<and> most_common_words (content_analysis (AdvancedScriptAnalyzer six_words)) =
     [([97, 97, 97, 97], 2), ([98, 98, 98, 98], 2), ([99, 99, 99, 99], 1), ([100, 100, 100,
        100], 1), ([101, 101, 101, 101], 1)]"
  by (simp add: most_common_six_words most_common_words_six_words)

subsection \<open>C3: the basic metrics of the empty text\<close>

text \<open>
  C3 (as amended). Analyzing the empty string succeeds, and its basic metrics are zero
  except the paragraph count: word count, sentence count, character count, average
  sentence length, average word length, reading time and broadcast time are 0, and the
  paragraph count is 1 (the number of blank-line separators plus one).
\<close>

theorem empty_text_basic_metrics:
  "map_option basic (analyze dig now (AdvancedScriptAnalyzer [])) =
     Some \<lparr> word_count = 0, sentence_count = 0, char_count = 0, paragraph_count = 1,
            avg_sentence_length = 0, avg_word_length = 0, reading_time_minutes = 0,
            broadcast_time_seconds = 0 \<rparr>"
  by (simp add: analyze_succeeds basic_analysis_empty)

text \<open>The claim as stated fails: the paragraph count of the empty text is not 0.\<close>

theorem empty_text_paragraph_count_not_zero:
  "paragraph_count (basic_analysis (AdvancedScriptAnalyzer [])) \<noteq> 0"
  by (simp add: basic_analysis_empty)

subsection \<open>C4: the recommendations for the empty text\<close>

text \<open>
  C4 (as amended). For the empty string exactly the rules 1 (too short), 3 (style not
  journalistic enough), 5 (no statistics), 6 (no sources) and 7 (not structured) fire, in
  this order; rule 8 does not fire; the rating is "needs improvement"; the word count and
  the sentence count are 0.
\<close>

theorem empty_text_recommendations:
  "map_option recommendations (analyze dig now (AdvancedScriptAnalyzer []))
     = Some [TooShort, StyleNotJournalistic, NoStatistics, NoSources, NotStructured]
   \<and> map_option (rating \<circ> overall_score) (analyze dig now (AdvancedScriptAnalyzer []))
       = Some rating_needs_improvement
   \<and> map_option (word_count \<circ> basic) (analyze dig now (AdvancedScriptAnalyzer [])) = Some 0
   \<and> map_option (sentence_count \<circ> basic) (analyze dig now (AdvancedScriptAnalyzer []))
       = Some 0"
  by (simp add: analyze_empty basic_analysis_empty)

text \<open>
  The claim as stated fails: the recommendations for the empty text are not those of the
  rules 1, 5, 6 and 7 alone (rule 3 fires as well).
\<close>

theorem empty_text_style_rule_fires:
  "map_option recommendations (analyze ascii_digit clock_one (AdvancedScriptAnalyzer []))
   \<noteq> Some [TooShort, NoStatistics, NoSources, NotStructured]"
  by (simp add: analyze_empty)

subsection \<open>C5: the word-frequency table\<close>

text \<open>
  C5 (as amended). The word-frequency table counts exactly the whitespace-split tokens
  whose length before stripping exceeds 3 characters, each under the token stripped of
  the punctuation characters at both of its ends (not only at its end): the count of a
  key is the number of such tokens that strip to it, a key with no such token is absent,
  and no key is listed twice. Stripping a token \<open>w\<close> removes a run of punctuation
  characters before it and one after it; what is left is empty or neither begins nor ends
  with a punctuation character.
\<close>

theorem word_freq_counts_long_raw_tokens:
  "map_of (word_freq (AdvancedScriptAnalyzer text)) k =
     (let n = length (filter (\<lambda>w. 3 < length w \<and> str_strip_chars punctuation w = k)
                        (str_split text))
      in if n = 0 then None else Some n)
   \<and> distinct (map fst (word_freq (AdvancedScriptAnalyzer text)))
   \<and> (\<exists>pre post. w = pre @ str_strip_chars punctuation w @ post
         \<and> set pre \<subseteq> set punctuation \<and> set post \<subseteq> set punctuation
         \<and> (str_strip_chars punctuation w = []
              \<or> (hd (str_strip_chars punctuation w) \<notin> set punctuation
                  \<and> last (str_strip_chars punctuation w) \<notin> set punctuation)))"
  using str_strip_chars_both_ends [of w punctuation]
  by (simp add: word_freq_def map_of_Counter distinct_Counter counted_tokens_def
      count_list_map_filter Let_def)

text \<open>
  The claim as stated fails: in the sample text the token "abc." is counted although it
  has 3 characters after stripping, and the token ".abcd" is counted as "abcd", its
  leading period removed.
\<close>

theorem word_freq_length_tested_before_strip:
  "str_split punctuated = [[97, 98, 99, 46], [46, 97, 98, 99, 100]]
   \<and> word_freq (AdvancedScriptAnalyzer punctuated) = [([97, 98, 99], 1), ([97, 98, 99,
      100], 1)]"
  by (simp add: word_freq_def str_split_def punctuated_def counted_tokens_def Counter_def
      str_strip_chars_def punctuation_def)

subsection \<open>C6: a script of thirty seconds\<close>

text \<open>
  C6. For every landmark and city record, a generator whose duration is 30 produces
  exactly the title, the introduction, the detailed description and the conclusion, in
  this order, whatever the random draws: none of the sections for the historical
  background, the significance, a story, the prominent landmarks, the statistics, the
  journalist angles or the visit information is present. The full text is the
  introduction, the description and the conclusion, separated by blank lines.
\<close>

theorem generate_30_sections:
  assumes "duration_seconds self = 30"
  shows "sections (generate title_case rnd self) =
       [(sec_title, fst (generate_intro rnd self)),
        (sec_intro, snd (generate_intro rnd self)),
        (sec_description, generate_detailed_description title_case self),
        (sec_conclusion, generate_conclusion rnd self)]
     \<and> map fst (sections (generate title_case rnd self)) =
         [sec_title, sec_intro, sec_description, sec_conclusion]
     \<and> list_all (\<lambda>t. t \<notin> set (map fst (sections (generate title_case rnd self))))
         [sec_historical, sec_significance, sec_key_landmarks, sec_statistics, sec_angles,
          sec_visit_info]
     \<and> \<not> list_ex (prefix sec_story) (map fst (sections (generate title_case rnd self)))
     \<and> full_text (generate title_case rnd self) =
         snd (generate_intro rnd self) @ newline2
         @ generate_detailed_description title_case self @ newline2
         @ generate_conclusion rnd self"
proof -
  have s: "sections (generate title_case rnd self) =
       [(sec_title, fst (generate_intro rnd self)),
        (sec_intro, snd (generate_intro rnd self)),
        (sec_description, generate_detailed_description title_case self),
        (sec_conclusion, generate_conclusion rnd self)]"
    using assms by (simp add: generate_def Let_def script_sections_30)
  have t: "map fst (sections (generate title_case rnd self)) =
         [sec_title, sec_intro, sec_description, sec_conclusion]"
    by (simp add: s)
  have n: "sec_intro \<noteq> sec_title" "sec_description \<noteq> sec_title" "sec_conclusion \<noteq> sec_title"
    by (simp_all add: sec_title_def sec_intro_def sec_description_def sec_conclusion_def)
  have f: "full_text (generate title_case rnd self) =
         snd (generate_intro rnd self) @ newline2
         @ generate_detailed_description title_case self @ newline2
         @ generate_conclusion rnd self"
    using assms n by (simp add: generate_def Let_def script_sections_30 build_full_script_def)
  show ?thesis
    unfolding t using section_titles_distinct s f by simp
qed

text \<open>
  Witness: the generator built from the sample dataset for a duration of 30. Its landmark
  has a story, statistics, prominent landmarks and journalist angles, and none of them
  appears.
\<close>

theorem generate_30_sections_witness:
  "ProfessionalScriptGenerator test_cities [114, 105, 121, 97, 100, 104] [109, 97, 115, 109,
     97, 107] 30 = Some test_generator
   \<and> duration_seconds test_generator = 30
   \<and> map fst (sections (generate keep_case test_draws test_generator)) =
       [sec_title, sec_intro, sec_description, sec_conclusion]"
proof -
  have d: "duration_seconds test_generator = 30" by (simp add: test_generator_def)
  show ?thesis
    using generate_30_sections [OF d, of keep_case test_draws] d generator_of_test_cities
    by simp
qed

subsection \<open>C7: the tone\<close>

text \<open>
  C7. For every input text the tone is "formal" exactly when the formal count exceeds
  twice the informal count, "informal" exactly when that fails and the informal count
  exceeds the formal count, and "balanced" otherwise, in particular whenever the two
  counts are equal. The counts are the numbers of entries of the formal and of the
  informal lexicon that occur in the text as substrings, and the tone of the style
  profile is this one.
\<close>

theorem detect_tone_classification:
  "(detect_tone (AdvancedScriptAnalyzer text) = tone_formal \<longleftrightarrow>
      count_matches formal_words text > 2 * count_matches informal_words text)
   \<and> (detect_tone (AdvancedScriptAnalyzer text) = tone_informal \<longleftrightarrow>
        \<not> count_matches formal_words text > 2 * count_matches informal_words text
        \<and> count_matches informal_words text > count_matches formal_words text)
   \<and> (detect_tone (AdvancedScriptAnalyzer text) = tone_balanced \<longleftrightarrow>
        \<not> count_matches formal_words text > 2 * count_matches informal_words text
        \<and> \<not> count_matches informal_words text > count_matches formal_words text)
   \<and> (count_matches formal_words text = count_matches informal_words text \<longrightarrow>
        detect_tone (AdvancedScriptAnalyzer text) = tone_balanced)
   \<and> tone (style_analysis dig (AdvancedScriptAnalyzer text))
       = detect_tone (AdvancedScriptAnalyzer text)
   \<and> count_matches formal_words text = length (filter (\<lambda>w. sublist w text) formal_words)
   \<and> count_matches informal_words text
       = length (filter (\<lambda>w. sublist w text) informal_words)"
proof -
  have d: "tone_formal \<noteq> tone_informal" "tone_formal \<noteq> tone_balanced"
    "tone_informal \<noteq> tone_balanced"
    by (simp_all add: tone_formal_def tone_informal_def tone_balanced_def)
  show ?thesis
    using d by (auto simp: detect_tone_def Let_def style_analysis_def count_matches_def
        str_contains_sublist)
qed

text \<open>
  Witness: a text with one formal and one informal word has equal counts, and its tone is
  "balanced".
\<close>

theorem detect_tone_classification_witness:
  "count_matches formal_words one_formal_one_informal
     = count_matches informal_words one_formal_one_informal
   \<and> detect_tone (AdvancedScriptAnalyzer one_formal_one_informal) = tone_balanced"
  using detect_tone_classification [of one_formal_one_informal]
  by (simp add: counts_one_formal_one_informal)

subsection \<open>C8: the ranges of the objectivity and of the score\<close>

text \<open>
  C8. For every input text the analysis succeeds, the objectivity written in the style
  profile is a number followed by the percent sign, that number reads back and lies
  between 0 and 100, and the overall score lies between 0 and 100. (Floats are exact
  rationals here.)
\<close>

theorem objectivity_and_score_in_range:
  "\<exists>a. analyze dig now (AdvancedScriptAnalyzer text) = Some a
     \<and> objectivity (style a) = str_of_int (objectivity_score (AdvancedScriptAnalyzer text)) @ [37]
     \<and> objectivity_percent (style a) = Some (objectivity_score (AdvancedScriptAnalyzer text))
     \<and> 0 \<le> objectivity_score (AdvancedScriptAnalyzer text)
     \<and> objectivity_score (AdvancedScriptAnalyzer text) \<le> 100
     \<and> 0 \<le> score (overall_score a) \<and> score (overall_score a) \<le> 100"
proof -
  let ?A = "AdvancedScriptAnalyzer text"
  have "(0::rat) \<le> 35 / 2" by simp
  then have "0 \<le> min 100 (py_round1 (raw_score (basic_analysis ?A) (style_analysis dig ?A)
      (content_analysis ?A) (objectivity_score ?A)))"
    using score_lower [of "basic_analysis ?A" "style_analysis dig ?A" ?A] by linarith
  moreover have "0 \<le> objectivity_score ?A \<and> objectivity_score ?A \<le> 100"
    using objectivity_score_bounds [of ?A] by linarith
  moreover have "objectivity (style_analysis dig ?A) = str_of_int (objectivity_score ?A) @ [37]"
    by (simp add: style_analysis_def Let_def)
  ultimately show ?thesis
    by (simp add: analyze_succeeds overall_score_eq objectivity_percent_style)
qed

subsection \<open>C9: the analysis as a function of the text\<close>

text \<open>
  C9 (as amended). For every text, two runs of the analysis yield results that are
  identical in everything but the time stamp \<^verbatim>\<open>analyzed_at\<close>, which is the clock reading of
  the run: the basic metrics, the style, the content, the recommendations and the score
  are a function of the text, with no randomness, and every run succeeds.
\<close>

theorem analysis_determined_up_to_time_stamp:
  "\<exists>a. \<forall>now. analyze dig now (AdvancedScriptAnalyzer text) = Some (a\<lparr>analyzed_at := now\<rparr>)"
  by (rule exI [of _ "the (analyze dig [] (AdvancedScriptAnalyzer text))"])
     (simp add: analyze_succeeds)

text \<open>
  The claim as stated fails: two runs on the same text at two clock readings return
  different results.
\<close>

theorem analyze_differs_by_time_stamp:
  "analyze ascii_digit clock_one (AdvancedScriptAnalyzer six_words)
   \<noteq> analyze ascii_digit clock_two (AdvancedScriptAnalyzer six_words)"
  by (simp add: analyze_succeeds clock_one_def clock_two_def)

subsection \<open>C10: the least score\<close>

text \<open>
  C10. For every input text the overall score is at least 17.5, and the objectivity
  percentage is at least 50: the length term is at least 10 and the objectivity term at
  least 7.5. (Floats are exact rationals here.)
\<close>

theorem score_at_least_17_5:
  "\<exists>a. analyze dig now (AdvancedScriptAnalyzer text) = Some a
     \<and> 35 / 2 \<le> score (overall_score a)
     \<and> objectivity_percent (style a) = Some (objectivity_score (AdvancedScriptAnalyzer text))
     \<and> 50 \<le> objectivity_score (AdvancedScriptAnalyzer text)"
  using score_lower [of "basic_analysis (AdvancedScriptAnalyzer text)"
      "style_analysis dig (AdvancedScriptAnalyzer text)" "AdvancedScriptAnalyzer text"]
    objectivity_score_bounds [of "AdvancedScriptAnalyzer text"]
  by (simp add: analyze_succeeds overall_score_eq objectivity_percent_style)

end
